theory Spec2Isabelle
  imports Main "HOL-Library.Word"
begin

section \<open>osdep.h: operating system dependencies\<close>

text \<open>
  The header holds, for each of its two platforms (\<^verbatim>\<open>linux\<close> and \<^verbatim>\<open>_WIN32\<close>), one set of
  inline wrappers around the platform's own loader, thread, mutex and condition-variable
  calls. Exactly one set is compiled in; here both are embedded side by side, the linux
  ones with the suffix \<open>_linux\<close> and the Windows ones with the suffix \<open>_win32\<close>.

  A wrapper is a function of the state of the platform. The calling thread, which C
  leaves implicit, is the argument \<open>t\<close>. Objects the C code handles through pointers
  (\<^verbatim>\<open>MUTEX_T *\<close>, \<^verbatim>\<open>COND_T *\<close>, \<^verbatim>\<open>THREAD_T *\<close>) are named by their addresses. A C \<^verbatim>\<open>int\<close>
  result is an \<open>int\<close>, a \<^verbatim>\<open>DWORD\<close> a 32-bit word, a handle or pointer a \<open>nat\<close> with
  \<^verbatim>\<open>NULL\<close> being 0.

  The native calls (\<^verbatim>\<open>pthread_create\<close>, \<^verbatim>\<open>CreateEvent\<close>, \<^verbatim>\<open>dlsym\<close> and the others) are the
  platform's, not the header's. Each is given here as its platform documents it, as far
  as the wrappers depend on it, and with the failures the header tests for: a native
  call that can fail for reasons outside this state (no resources, a bad argument)
  takes its answer from the platform's part of the state (\<open>l_errnos\<close>, \<open>w_kernel\<close>), so
  that every property below holds for every way the platform may answer.
\<close>

subsection \<open>Results of a call\<close>

text \<open>
  A call either returns a result to its caller, in a new state, or it cannot go on in
  the state it has reached: the calling thread blocks inside a native call. The state at
  that point is visible to the other threads, and \<open>'p\<close> records where the thread stands,
  so that it can be resumed in a later state.
\<close>

datatype ('s, 'p) outcome = Returns int 's | Blocked 's 'p

definition returned :: "('s, 'p) outcome \<Rightarrow> int option" where
  "returned r = (case r of Returns x s \<Rightarrow> Some x | Blocked s p \<Rightarrow> None)"

definition state_after :: "('s, 'p) outcome \<Rightarrow> 's" where
  "state_after r = (case r of Returns x s \<Rightarrow> s | Blocked s p \<Rightarrow> s)"

text \<open>
  \<open>encodes r ok\<close>: the call, if it has returned, returned 0 exactly when \<open>ok\<close> holds.
  \<open>answers r ok\<close>: the call has returned, and returned 0 exactly when \<open>ok\<close> holds.
  \<open>logged prefix before after\<close>: the log \<open>after\<close> is the log \<open>before\<close> and one more message,
  which starts with \<open>prefix\<close>.
  \<open>failure_reported failed prefix before lg r\<close>: the call, if it has returned, has
  returned a non-zero result and logged one such message in case \<open>failed\<close> holds, and has
  else left the log as it was; a call that has not returned has logged nothing.
\<close>

definition encodes :: "('s, 'p) outcome \<Rightarrow> bool \<Rightarrow> bool" where
  "encodes r ok = (case r of Returns x s \<Rightarrow> (x = 0) = ok | Blocked s p \<Rightarrow> True)"

definition answers :: "('s, 'p) outcome \<Rightarrow> bool \<Rightarrow> bool" where
  "answers r ok = (case r of Returns x s \<Rightarrow> (x = 0) = ok | Blocked s p \<Rightarrow> False)"

definition logged :: "string \<Rightarrow> string list \<Rightarrow> string list \<Rightarrow> bool" where
  "logged prefix before after =
     (length after = Suc (length before) \<and> take (length before) after = before
      \<and> take (length prefix) (last after) = prefix)"

definition failure_reported ::
  "bool \<Rightarrow> string \<Rightarrow> string list \<Rightarrow> ('s \<Rightarrow> string list) \<Rightarrow> ('s, 'p) outcome \<Rightarrow> bool" where
  "failure_reported failed prefix before lg r =
     (case r of
        Blocked s p \<Rightarrow> lg s = before
      | Returns x s \<Rightarrow>
          if failed then x \<noteq> 0 \<and> logged prefix before (lg s) else lg s = before)"

definition THREAD_OK :: int where
  "THREAD_OK = 0"

definition NULL :: nat where
  "NULL = 0"

subsection \<open>Logging\<close>

text \<open>
  Modelled from the spec: \<^verbatim>\<open>META_ERROR\<close> (log_meta.h, not under src/) writes one formatted,
  human-readable message to the log. Every format string of this header has a single
  \<^verbatim>\<open>%s\<close>, which \<open>format_s\<close> replaces by its argument.
\<close>

fun format_s :: "string \<Rightarrow> string \<Rightarrow> string" where
  "format_s [] arg = []"
| "format_s [c] arg = [c]"
| "format_s (c # d # cs) arg =
     (if c = CHR ''%'' \<and> d = CHR ''s'' then arg @ cs else c # format_s (d # cs) arg)"

definition META_ERROR :: "string \<Rightarrow> string \<Rightarrow> string list \<Rightarrow> string list" where
  "META_ERROR fmt arg lg = lg @ [format_s fmt arg]"

section \<open>The Windows backing\<close>

subsection \<open>State of the platform\<close>

text \<open>
  An event object as \<^verbatim>\<open>CreateEvent\<close> makes it: its reset type and whether it is signaled.
  A critical section: the thread that owns it and how often that thread has entered it
  (critical sections are recursive). \<open>damaged\<close> is set once a thread that does not own
  the section leaves it: the platform documents that other threads entering it may then
  wait indefinitely.
\<close>

record event_object =
  manual_reset :: bool
  signaled :: bool

record critical_section =
  OwningThread :: "nat option"
  RecursionCount :: nat
  damaged :: bool

text \<open>
  \<open>w_kernel\<close> holds the answers the kernel will give to the coming requests for a new
  object (\<^verbatim>\<open>CreateThread\<close>, \<^verbatim>\<open>CreateEvent\<close>, \<^verbatim>\<open>LoadLibrary\<close>): the handle it returns, 0 for a
  request it refuses; it refuses every request once the list is used up.
  \<open>w_last_error\<close> is the text \<^verbatim>\<open>str_GetLastError\<close> gives for the last failure.
\<close>

record win32 =
  w_log :: "string list"
  w_last_error :: string
  w_kernel :: "nat list"
  w_events :: "nat \<Rightarrow> event_object option"
  w_sections :: "nat \<Rightarrow> critical_section"
  w_cond_vars :: "nat \<Rightarrow> nat"
  w_thread_ids :: "nat \<Rightarrow> nat"
  w_threads :: "(nat \<times> nat) list"
  w_files :: "string \<Rightarrow> (string \<Rightarrow> nat option) option"
  w_modules :: "nat \<Rightarrow> (string \<Rightarrow> nat option) option"

text \<open>
  Where a thread blocked inside a wrapper stands: in \<^verbatim>\<open>MUTEX_LOCK\<close> (thread, mutex); in the
  \<^verbatim>\<open>WaitForSingleObject\<close> of \<^verbatim>\<open>COND_WAIT\<close> (thread, handle of the event, mutex); or in the
  \<^verbatim>\<open>EnterCriticalSection\<close> of \<^verbatim>\<open>COND_WAIT\<close> (thread, mutex, the result the wait gave).
\<close>

datatype win32_pending =
    In_MUTEX_LOCK nat nat
  | In_COND_WAIT_wait nat nat nat
  | In_COND_WAIT_enter nat nat "32 word"

text \<open>
  Modelled from the spec: \<^verbatim>\<open>str_GetLastError\<close> is declared in the header (line 131) and
  defined outside src/; it returns the description of the most recent failure.
\<close>

definition str_GetLastError :: "win32 \<Rightarrow> string" where
  "str_GetLastError w = w_last_error w"

subsection \<open>Native critical sections\<close>

definition InitializeCriticalSection :: "nat \<Rightarrow> win32 \<Rightarrow> win32" where
  "InitializeCriticalSection m w =
     w\<lparr>w_sections := (w_sections w)
        (m := \<lparr>OwningThread = None, RecursionCount = 0, damaged = False\<rparr>)\<rparr>"

text \<open>\<open>None\<close>: the section is owned by another thread (or damaged), the caller waits.\<close>

definition EnterCriticalSection :: "nat \<Rightarrow> nat \<Rightarrow> win32 \<Rightarrow> win32 option" where
  "EnterCriticalSection t m w =
     (let cs = w_sections w m in
      if damaged cs then None
      else if OwningThread cs = None then
        Some (w\<lparr>w_sections := (w_sections w)
                (m := cs\<lparr>OwningThread := Some t, RecursionCount := 1\<rparr>)\<rparr>)
      else if OwningThread cs = Some t then
        Some (w\<lparr>w_sections := (w_sections w)
                (m := cs\<lparr>RecursionCount := RecursionCount cs + 1\<rparr>)\<rparr>)
      else None)"

definition LeaveCriticalSection :: "nat \<Rightarrow> nat \<Rightarrow> win32 \<Rightarrow> win32" where
  "LeaveCriticalSection t m w =
     (let cs = w_sections w m in
      if OwningThread cs \<noteq> Some t then
        w\<lparr>w_sections := (w_sections w)(m := cs\<lparr>damaged := True\<rparr>)\<rparr>
      else if RecursionCount cs \<le> 1 then
        w\<lparr>w_sections := (w_sections w)
            (m := cs\<lparr>OwningThread := None, RecursionCount := 0\<rparr>)\<rparr>
      else
        w\<lparr>w_sections := (w_sections w)
            (m := cs\<lparr>RecursionCount := RecursionCount cs - 1\<rparr>)\<rparr>)"

subsection \<open>Mutex handling (lines 275-288)\<close>

definition MUTEX_INIT_win32 :: "nat \<Rightarrow> win32 \<Rightarrow> (win32, win32_pending) outcome" where
  "MUTEX_INIT_win32 mutex w = Returns THREAD_OK (InitializeCriticalSection mutex w)"

definition MUTEX_LOCK_win32 ::
  "nat \<Rightarrow> nat \<Rightarrow> win32 \<Rightarrow> (win32, win32_pending) outcome" where
  "MUTEX_LOCK_win32 t mutex w =
     (case EnterCriticalSection t mutex w of
        None \<Rightarrow> Blocked w (In_MUTEX_LOCK t mutex)
      | Some w' \<Rightarrow> Returns THREAD_OK w')"

definition MUTEX_UNLOCK_win32 ::
  "nat \<Rightarrow> nat \<Rightarrow> win32 \<Rightarrow> (win32, win32_pending) outcome" where
  "MUTEX_UNLOCK_win32 t mutex w = Returns THREAD_OK (LeaveCriticalSection t mutex w)"

subsection \<open>Native threads and events\<close>

definition win32_META_ERROR :: "string \<Rightarrow> string \<Rightarrow> win32 \<Rightarrow> win32" where
  "win32_META_ERROR fmt arg w = w\<lparr>w_log := META_ERROR fmt arg (w_log w)\<rparr>"

text \<open>The kernel's answer to a request for a new object, taken off \<open>w_kernel\<close>.\<close>

definition kernel_grant :: "win32 \<Rightarrow> nat \<times> win32" where
  "kernel_grant w =
     (case w_kernel w of
        [] \<Rightarrow> (NULL, w\<lparr>w_last_error := ''Not enough resources are available.''\<rparr>)
      | h # hs \<Rightarrow>
          if h = NULL
          then (NULL, w\<lparr>w_kernel := hs,
                         w_last_error := ''Not enough resources are available.''\<rparr>)
          else (h, w\<lparr>w_kernel := hs\<rparr>))"

text \<open>
  \<^verbatim>\<open>CreateThread(NULL, 0, func, NULL, 0, tid)\<close>: \<^verbatim>\<open>NULL\<close> and no thread when the kernel
  refuses; else the thread runs \<open>func\<close>, and its identifier is stored at \<open>tid\<close>.
\<close>

definition CreateThread :: "nat \<Rightarrow> nat \<Rightarrow> win32 \<Rightarrow> nat \<times> win32" where
  "CreateThread func tid w =
     (let (h, w1) = kernel_grant w in
      if h = NULL then (NULL, w1)
      else let new = Suc (length (w_threads w1)) in
        (h, w1\<lparr>w_threads := w_threads w1 @ [(new, func)],
                w_thread_ids := (w_thread_ids w1)(tid := new)\<rparr>))"

text \<open>\<^verbatim>\<open>CreateEvent(NULL, manual, initial, NULL)\<close>: an unnamed event object.\<close>

definition CreateEvent :: "bool \<Rightarrow> bool \<Rightarrow> win32 \<Rightarrow> nat \<times> win32" where
  "CreateEvent manual initial w =
     (let (h, w1) = kernel_grant w in
      if h = NULL then (NULL, w1)
      else (h, w1\<lparr>w_events := (w_events w1)
                     (h := Some \<lparr>manual_reset = manual, signaled = initial\<rparr>)\<rparr>))"

text \<open>
  \<^verbatim>\<open>SetEvent\<close> sets the event to signaled; it fails (returns 0) on a handle that is not an
  event. A signaled auto-reset event stays signaled until one wait on it is satisfied.
\<close>

definition SetEvent :: "nat \<Rightarrow> win32 \<Rightarrow> int \<times> win32" where
  "SetEvent h w =
     (case w_events w h of
        None \<Rightarrow> (0, w\<lparr>w_last_error := ''The handle is invalid.''\<rparr>)
      | Some ev \<Rightarrow> (1, w\<lparr>w_events := (w_events w)(h := Some (ev\<lparr>signaled := True\<rparr>))\<rparr>))"

definition WAIT_OBJECT_0 :: "32 word" where
  "WAIT_OBJECT_0 = 0"

definition WAIT_FAILED :: "32 word" where
  "WAIT_FAILED = 0xFFFFFFFF"

text \<open>
  \<^verbatim>\<open>WaitForSingleObject(h, INFINITE)\<close>: \<open>None\<close> while the event is not signaled (the caller
  waits); on a signaled event it returns \<^verbatim>\<open>WAIT_OBJECT_0\<close>, and an auto-reset event is
  reset by that; on a handle that is not an event it returns \<^verbatim>\<open>WAIT_FAILED\<close>.
\<close>

definition WaitForSingleObject :: "nat \<Rightarrow> win32 \<Rightarrow> (32 word \<times> win32) option" where
  "WaitForSingleObject h w =
     (case w_events w h of
        None \<Rightarrow> Some (WAIT_FAILED, w\<lparr>w_last_error := ''The handle is invalid.''\<rparr>)
      | Some ev \<Rightarrow>
          if signaled ev then
            Some (WAIT_OBJECT_0,
                  if manual_reset ev then w
                  else w\<lparr>w_events := (w_events w)(h := Some (ev\<lparr>signaled := False\<rparr>))\<rparr>)
          else None)"

subsection \<open>Thread handling (lines 233-242)\<close>

definition THREAD_CREATE_win32 ::
  "nat \<Rightarrow> nat \<Rightarrow> win32 \<Rightarrow> (win32, win32_pending) outcome" where
  "THREAD_CREATE_win32 tid func w =
     (let (ret, w1) = CreateThread func tid w;
          w2 = (if ret = NULL
                then win32_META_ERROR ''Failure starting thread: %s'' (str_GetLastError w1) w1
                else w1)
      in Returns (of_bool (ret = NULL)) w2)"

subsection \<open>Condition variables (lines 330-368)\<close>

definition COND_INIT_win32 :: "nat \<Rightarrow> win32 \<Rightarrow> (win32, win32_pending) outcome" where
  "COND_INIT_win32 cond w =
     (let (h, w1) = CreateEvent False False w;
          w2 = w1\<lparr>w_cond_vars := (w_cond_vars w1)(cond := h)\<rparr>
      in if w_cond_vars w2 cond = NULL
         then Returns (- 1) (win32_META_ERROR ''cond_init failed: %s'' (str_GetLastError w2) w2)
         else Returns 0 w2)"

text \<open>
  \<^verbatim>\<open>COND_WAIT\<close> makes three native calls, and the thread may wait in the second and in the
  third: \<open>COND_WAIT_win32_enter\<close> is the wrapper from \<^verbatim>\<open>EnterCriticalSection\<close> on, with the
  wait's result in hand, \<open>COND_WAIT_win32_wait\<close> the wrapper from \<^verbatim>\<open>WaitForSingleObject\<close>
  on, with the handle read from \<^verbatim>\<open>*cond\<close>.
\<close>

definition COND_WAIT_win32_enter ::
  "nat \<Rightarrow> nat \<Rightarrow> 32 word \<Rightarrow> win32 \<Rightarrow> (win32, win32_pending) outcome" where
  "COND_WAIT_win32_enter t mutex ret w =
     (case EnterCriticalSection t mutex w of
        None \<Rightarrow> Blocked w (In_COND_WAIT_enter t mutex ret)
      | Some w' \<Rightarrow>
          if ret = WAIT_OBJECT_0 then Returns 0 w'
          else Returns (- 1)
                 (win32_META_ERROR ''cond_wait failed: %s'' (str_GetLastError w') w'))"

definition COND_WAIT_win32_wait ::
  "nat \<Rightarrow> nat \<Rightarrow> nat \<Rightarrow> win32 \<Rightarrow> (win32, win32_pending) outcome" where
  "COND_WAIT_win32_wait t h mutex w =
     (case WaitForSingleObject h w of
        None \<Rightarrow> Blocked w (In_COND_WAIT_wait t h mutex)
      | Some (ret, w') \<Rightarrow> COND_WAIT_win32_enter t mutex ret w')"

definition COND_WAIT_win32 ::
  "nat \<Rightarrow> nat \<Rightarrow> nat \<Rightarrow> win32 \<Rightarrow> (win32, win32_pending) outcome" where
  "COND_WAIT_win32 t cond mutex w =
     (let w1 = LeaveCriticalSection t mutex w
      in COND_WAIT_win32_wait t (w_cond_vars w1 cond) mutex w1)"

definition COND_SIGNAL_win32 :: "nat \<Rightarrow> win32 \<Rightarrow> (win32, win32_pending) outcome" where
  "COND_SIGNAL_win32 cond w =
     (let (ret, w1) = SetEvent (w_cond_vars w cond) w
      in if ret = 0
         then Returns (- 1) (win32_META_ERROR ''cond_signal failed: %s'' (str_GetLastError w1) w1)
         else Returns 0 w1)"

text \<open>A blocked thread goes on, in a later state, from the native call it waits in.\<close>

fun resume_win32 :: "win32_pending \<Rightarrow> win32 \<Rightarrow> (win32, win32_pending) outcome" where
  "resume_win32 (In_MUTEX_LOCK t mutex) w = MUTEX_LOCK_win32 t mutex w"
| "resume_win32 (In_COND_WAIT_wait t h mutex) w = COND_WAIT_win32_wait t h mutex w"
| "resume_win32 (In_COND_WAIT_enter t mutex ret) w = COND_WAIT_win32_enter t mutex ret w"

subsection \<open>DLL operations (lines 116-134)\<close>

text \<open>
  \<open>w_files\<close> are the DLL files there are, each with the addresses it exports by name;
  \<open>w_modules\<close> the modules loaded in the process, by handle. \<^verbatim>\<open>GetProcAddress\<close> looks the
  name up in the export table of that module alone. \<^verbatim>\<open>FreeLibrary\<close> returns nonzero for
  success and zero for failure.
\<close>

definition LoadLibrary :: "string \<Rightarrow> win32 \<Rightarrow> nat \<times> win32" where
  "LoadLibrary filename w =
     (case w_files w filename of
        None \<Rightarrow> (NULL, w\<lparr>w_last_error := ''The specified module could not be found.''\<rparr>)
      | Some exports \<Rightarrow>
          (let (h, w1) = kernel_grant w in
           if h = NULL then (NULL, w1)
           else (h, w1\<lparr>w_modules := (w_modules w1)(h := Some exports)\<rparr>)))"

definition GetProcAddress :: "nat \<Rightarrow> string \<Rightarrow> win32 \<Rightarrow> nat \<times> win32" where
  "GetProcAddress h name w =
     (case w_modules w h of
        None \<Rightarrow> (NULL, w\<lparr>w_last_error := ''The handle is invalid.''\<rparr>)
      | Some exports \<Rightarrow>
          (case exports name of
             None \<Rightarrow> (NULL, w\<lparr>w_last_error := ''The specified procedure could not be found.''\<rparr>)
           | Some a \<Rightarrow> (a, w)))"

definition FreeLibrary :: "nat \<Rightarrow> win32 \<Rightarrow> int \<times> win32" where
  "FreeLibrary h w =
     (case w_modules w h of
        None \<Rightarrow> (0, w\<lparr>w_last_error := ''The handle is invalid.''\<rparr>)
      | Some exports \<Rightarrow> (1, w\<lparr>w_modules := (w_modules w)(h := None)\<rparr>))"

definition DLOPEN_win32 :: "string \<Rightarrow> win32 \<Rightarrow> nat \<times> win32" where
  "DLOPEN_win32 filename w = LoadLibrary filename w"

definition DLSYM_win32 :: "nat \<Rightarrow> string \<Rightarrow> win32 \<Rightarrow> nat \<times> win32" where
  "DLSYM_win32 handle string w = GetProcAddress handle string w"

definition DLCLOSE_win32 :: "nat \<Rightarrow> win32 \<Rightarrow> (win32, win32_pending) outcome" where
  "DLCLOSE_win32 handle w =
     (let (r, w') = FreeLibrary handle w in Returns (of_bool (r = 0)) w')"

definition DLERROR_win32 :: "win32 \<Rightarrow> string" where
  "DLERROR_win32 w = str_GetLastError w"

subsection \<open>The interface as a whole\<close>

text \<open>
  The calls a thread can make through this header, and the state each leaves behind,
  whether it has returned or the thread is blocked in it. \<open>Resumed p\<close> is a blocked
  thread going on.
\<close>

datatype win32_call =
    THREAD_CREATE_call nat nat
  | MUTEX_INIT_call nat
  | MUTEX_LOCK_call nat nat
  | MUTEX_UNLOCK_call nat nat
  | COND_INIT_call nat
  | COND_WAIT_call nat nat nat
  | COND_SIGNAL_call nat
  | DLOPEN_call string
  | DLSYM_call nat string
  | DLCLOSE_call nat
  | Resumed win32_pending

fun after_win32 :: "win32_call \<Rightarrow> win32 \<Rightarrow> win32" where
  "after_win32 (THREAD_CREATE_call tid func) w = state_after (THREAD_CREATE_win32 tid func w)"
| "after_win32 (MUTEX_INIT_call m) w = state_after (MUTEX_INIT_win32 m w)"
| "after_win32 (MUTEX_LOCK_call t m) w = state_after (MUTEX_LOCK_win32 t m w)"
| "after_win32 (MUTEX_UNLOCK_call t m) w = state_after (MUTEX_UNLOCK_win32 t m w)"
| "after_win32 (COND_INIT_call c) w = state_after (COND_INIT_win32 c w)"
| "after_win32 (COND_WAIT_call t c m) w = state_after (COND_WAIT_win32 t c m w)"
| "after_win32 (COND_SIGNAL_call c) w = state_after (COND_SIGNAL_win32 c w)"
| "after_win32 (DLOPEN_call filename) w = snd (DLOPEN_win32 filename w)"
| "after_win32 (DLSYM_call h name) w = snd (DLSYM_win32 h name w)"
| "after_win32 (DLCLOSE_call h) w = state_after (DLCLOSE_win32 h w)"
| "after_win32 (Resumed p) w = state_after (resume_win32 p w)"

fun after_all_win32 :: "win32_call list \<Rightarrow> win32 \<Rightarrow> win32" where
  "after_all_win32 [] w = w"
| "after_all_win32 (x # xs) w = after_all_win32 xs (after_win32 x w)"

text \<open>The event with handle \<open>h\<close> is an auto-reset event and is not signaled.\<close>

definition auto_unsignaled :: "nat \<Rightarrow> win32 \<Rightarrow> bool" where
  "auto_unsignaled h w = (w_events w h = Some \<lparr>manual_reset = False, signaled = False\<rparr>)"

fun is_signal :: "win32_call \<Rightarrow> bool" where
  "is_signal (COND_SIGNAL_call c) = True"
| "is_signal x = False"

section \<open>The linux backing\<close>

subsection \<open>State of the platform\<close>

text \<open>
  \<open>l_errnos\<close> holds the error numbers the platform will report for the coming pthread
  calls, one per call, 0 for a call that succeeds; every call succeeds once the list is
  used up. \<open>l_mutexes\<close> gives the owner of each mutex, \<open>l_conds\<close> the threads asleep on
  each condition variable. \<open>l_picks\<close> holds the choices the platform will make at the
  coming signals, of the sleeping thread to restart (by its place among the sleepers;
  the first one once the list is used up). \<open>l_early_detach\<close> says, for the coming
  thread creations, whether the new thread has run and detached itself (its function
  begins with \<^verbatim>\<open>pthread_detach(pthread_self())\<close>) by the time \<^verbatim>\<open>pthread_create\<close> returns to
  the creator; it has not once the list is used up.
\<close>

record pthread =
  start_routine :: nat
  detached :: bool

text \<open>
  A shared object: the addresses it exports by name, and the export tables of the
  objects that are loaded with it as its dependencies, in the order they are searched.
\<close>

record shared_object =
  so_exports :: "string \<Rightarrow> nat option"
  so_needed :: "(string \<Rightarrow> nat option) list"

record linux =
  l_log :: "string list"
  l_errnos :: "int list"
  l_threads :: "(nat \<times> pthread) list"
  l_thread_ids :: "nat \<Rightarrow> nat"
  l_mutexes :: "nat \<Rightarrow> nat option"
  l_conds :: "nat \<Rightarrow> nat list"
  l_picks :: "nat list"
  l_early_detach :: "bool list"
  l_dlerror :: "string option"
  l_opened :: nat
  l_files :: "string \<Rightarrow> shared_object option"
  l_modules :: "nat \<Rightarrow> shared_object option"

text \<open>
  Where a thread blocked inside a wrapper stands: in \<^verbatim>\<open>pthread_mutex_lock\<close>; asleep in
  \<^verbatim>\<open>pthread_cond_wait\<close>; or restarted in \<^verbatim>\<open>pthread_cond_wait\<close> and waiting for the mutex.
\<close>

datatype linux_pending =
    In_pthread_mutex_lock nat nat
  | In_pthread_cond_wait nat nat nat
  | In_pthread_cond_wait_mutex nat nat

definition linux_META_ERROR :: "string \<Rightarrow> string \<Rightarrow> linux \<Rightarrow> linux" where
  "linux_META_ERROR fmt arg w = w\<lparr>l_log := META_ERROR fmt arg (l_log w)\<rparr>"

text \<open>The C library's \<^verbatim>\<open>strerror\<close>, for the error numbers the pthread calls document.\<close>

definition strerror :: "int \<Rightarrow> string" where
  "strerror e =
     (if e = 0 then ''Success''
      else if e = 1 then ''Operation not permitted''
      else if e = 3 then ''No such process''
      else if e = 11 then ''Resource temporarily unavailable''
      else if e = 12 then ''Cannot allocate memory''
      else if e = 16 then ''Device or resource busy''
      else if e = 22 then ''Invalid argument''
      else if e = 35 then ''Resource deadlock avoided''
      else ''Unknown error'')"

definition platform_errno :: "linux \<Rightarrow> int \<times> linux" where
  "platform_errno w =
     (case l_errnos w of [] \<Rightarrow> (0, w) | e # es \<Rightarrow> (e, w\<lparr>l_errnos := es\<rparr>))"

definition platform_pick :: "linux \<Rightarrow> nat \<times> linux" where
  "platform_pick w =
     (case l_picks w of [] \<Rightarrow> (0, w) | k # ks \<Rightarrow> (k, w\<lparr>l_picks := ks\<rparr>))"

definition platform_early_detach :: "linux \<Rightarrow> bool \<times> linux" where
  "platform_early_detach w =
     (case l_early_detach w of [] \<Rightarrow> (False, w) | b # bs \<Rightarrow> (b, w\<lparr>l_early_detach := bs\<rparr>))"

subsection \<open>Native threads\<close>

text \<open>
  \<^verbatim>\<open>pthread_create(tid, NULL, func, NULL)\<close>: on an error no thread is created; else a new
  thread runs \<open>func\<close>, and its identifier is stored at \<open>tid\<close>. The thread is created
  joinable, and it may run before \<^verbatim>\<open>pthread_create\<close> returns: it is detached already if
  it has detached itself by then.
  \<^verbatim>\<open>pthread_detach\<close> marks a joinable thread detached and returns 0; it returns \<^verbatim>\<open>EINVAL\<close>
  (22) for a thread that is detached already, and \<^verbatim>\<open>ESRCH\<close> (3) when there is no thread
  with that identifier.
\<close>

definition pthread_create :: "nat \<Rightarrow> nat \<Rightarrow> linux \<Rightarrow> int \<times> linux" where
  "pthread_create tid func w =
     (let (e, w1) = platform_errno w in
      if e \<noteq> 0 then (e, w1)
      else
        let (early, w2) = platform_early_detach w1;
            new = Suc (length (l_threads w2))
        in (0, w2\<lparr>l_threads :=
                      l_threads w2 @ [(new, \<lparr>start_routine = func, detached = early\<rparr>)],
                    l_thread_ids := (l_thread_ids w2)(tid := new)\<rparr>))"

definition pthread_detach :: "nat \<Rightarrow> linux \<Rightarrow> int \<times> linux" where
  "pthread_detach thread w =
     (case map_of (l_threads w) thread of
        None \<Rightarrow> (3, w)
      | Some th \<Rightarrow>
          if detached th then (22, w)
          else (0, w\<lparr>l_threads :=
                       map (\<lambda>(i, th). if i = thread then (i, th\<lparr>detached := True\<rparr>) else (i, th))
                         (l_threads w)\<rparr>))"

text \<open>The threads there are, each with the function it runs.\<close>

definition l_running :: "linux \<Rightarrow> (nat \<times> nat) list" where
  "l_running w = map (\<lambda>(i, th). (i, start_routine th)) (l_threads w)"

subsection \<open>Thread handling (lines 216-229)\<close>

definition THREAD_CREATE_linux ::
  "nat \<Rightarrow> nat \<Rightarrow> linux \<Rightarrow> (linux, linux_pending) outcome" where
  "THREAD_CREATE_linux tid func w =
     (let (ret, w1) = pthread_create tid func w in
      if ret \<noteq> 0
      then Returns ret (linux_META_ERROR ''Failure starting thread: %s'' (strerror ret) w1)
      else
        let (ret, w2) = pthread_detach (l_thread_ids w1 tid) w1;
            w3 = (if ret \<noteq> 0
                  then linux_META_ERROR ''Failure detaching thread: %s'' (strerror ret) w2
                  else w2)
        in Returns ret w3)"

subsection \<open>Native mutexes and condition variables\<close>

text \<open>
  A thread that locks a mutex another thread owns waits until the mutex is free.
  \<^verbatim>\<open>pthread_cond_wait\<close> reports an error before it touches the mutex; else it releases
  the mutex and puts the caller to sleep on the condition variable, and the caller, once
  \<^verbatim>\<open>pthread_cond_signal\<close> has restarted it, takes the mutex again before it returns.
  \<^verbatim>\<open>pthread_cond_signal\<close> restarts one of the sleeping threads, the one the platform
  picks, and does nothing when there is none.
\<close>

definition pthread_mutex_init :: "nat \<Rightarrow> linux \<Rightarrow> int \<times> linux" where
  "pthread_mutex_init m w =
     (let (e, w1) = platform_errno w in
      if e \<noteq> 0 then (e, w1) else (0, w1\<lparr>l_mutexes := (l_mutexes w1)(m := None)\<rparr>))"

definition mutex_acquire ::
  "linux_pending \<Rightarrow> nat \<Rightarrow> nat \<Rightarrow> linux \<Rightarrow> (linux, linux_pending) outcome" where
  "mutex_acquire p t m w =
     (if l_mutexes w m = None
      then Returns 0 (w\<lparr>l_mutexes := (l_mutexes w)(m := Some t)\<rparr>)
      else Blocked w p)"

definition pthread_mutex_lock :: "nat \<Rightarrow> nat \<Rightarrow> linux \<Rightarrow> (linux, linux_pending) outcome" where
  "pthread_mutex_lock t m w =
     (let (e, w1) = platform_errno w in
      if e \<noteq> 0 then Returns e w1 else mutex_acquire (In_pthread_mutex_lock t m) t m w1)"

definition pthread_mutex_unlock :: "nat \<Rightarrow> nat \<Rightarrow> linux \<Rightarrow> int \<times> linux" where
  "pthread_mutex_unlock t m w =
     (let (e, w1) = platform_errno w in
      if e \<noteq> 0 then (e, w1) else (0, w1\<lparr>l_mutexes := (l_mutexes w1)(m := None)\<rparr>))"

definition pthread_cond_init :: "nat \<Rightarrow> linux \<Rightarrow> int \<times> linux" where
  "pthread_cond_init c w =
     (let (e, w1) = platform_errno w in
      if e \<noteq> 0 then (e, w1) else (0, w1\<lparr>l_conds := (l_conds w1)(c := [])\<rparr>))"

definition cond_wake :: "nat \<Rightarrow> nat \<Rightarrow> nat \<Rightarrow> linux \<Rightarrow> (linux, linux_pending) outcome" where
  "cond_wake t c m w =
     (if t \<in> set (l_conds w c) then Blocked w (In_pthread_cond_wait t c m)
      else mutex_acquire (In_pthread_cond_wait_mutex t m) t m w)"

definition pthread_cond_wait ::
  "nat \<Rightarrow> nat \<Rightarrow> nat \<Rightarrow> linux \<Rightarrow> (linux, linux_pending) outcome" where
  "pthread_cond_wait t c m w =
     (let (e, w1) = platform_errno w in
      if e \<noteq> 0 then Returns e w1
      else Blocked (w1\<lparr>l_mutexes := (l_mutexes w1)(m := None),
                       l_conds := (l_conds w1)(c := l_conds w1 c @ [t])\<rparr>)
             (In_pthread_cond_wait t c m))"

definition restart :: "nat \<Rightarrow> nat list \<Rightarrow> nat list" where
  "restart k sleepers =
     take (k mod length sleepers) sleepers @ drop (Suc (k mod length sleepers)) sleepers"

definition pthread_cond_signal :: "nat \<Rightarrow> linux \<Rightarrow> int \<times> linux" where
  "pthread_cond_signal c w =
     (let (e, w1) = platform_errno w in
      if e \<noteq> 0 then (e, w1)
      else
        let (k, w2) = platform_pick w1
        in (0, w2\<lparr>l_conds := (l_conds w2)(c := restart k (l_conds w2 c))\<rparr>))"

subsection \<open>Mutex handling (lines 249-270) and condition variables (lines 294-315)\<close>

text \<open>
  Each of these wrappers ends the same way, with the native call's result in \<^verbatim>\<open>ret\<close>:
  \<^verbatim>\<open>if(ret!=THREAD_OK) META_ERROR(fmt, strerror(ret)); return(ret);\<close>
\<close>

definition check_ret ::
  "string \<Rightarrow> (linux, linux_pending) outcome \<Rightarrow> (linux, linux_pending) outcome" where
  "check_ret fmt r =
     (case r of
        Blocked w p \<Rightarrow> Blocked w p
      | Returns ret w \<Rightarrow>
          Returns ret (if ret \<noteq> THREAD_OK then linux_META_ERROR fmt (strerror ret) w else w))"

definition MUTEX_INIT_linux :: "nat \<Rightarrow> linux \<Rightarrow> (linux, linux_pending) outcome" where
  "MUTEX_INIT_linux mutex w =
     (let (ret, w1) = pthread_mutex_init mutex w
      in check_ret ''mutex_init failed: %s'' (Returns ret w1))"

definition MUTEX_LOCK_linux ::
  "nat \<Rightarrow> nat \<Rightarrow> linux \<Rightarrow> (linux, linux_pending) outcome" where
  "MUTEX_LOCK_linux t mutex w =
     check_ret ''mutex_lock failed: %s'' (pthread_mutex_lock t mutex w)"

definition MUTEX_UNLOCK_linux ::
  "nat \<Rightarrow> nat \<Rightarrow> linux \<Rightarrow> (linux, linux_pending) outcome" where
  "MUTEX_UNLOCK_linux t mutex w =
     (let (ret, w1) = pthread_mutex_unlock t mutex w
      in check_ret ''mutex_unlock failed: %s'' (Returns ret w1))"

definition COND_INIT_linux :: "nat \<Rightarrow> linux \<Rightarrow> (linux, linux_pending) outcome" where
  "COND_INIT_linux cond w =
     (let (ret, w1) = pthread_cond_init cond w
      in check_ret ''cond_init failed: %s'' (Returns ret w1))"

definition COND_WAIT_linux ::
  "nat \<Rightarrow> nat \<Rightarrow> nat \<Rightarrow> linux \<Rightarrow> (linux, linux_pending) outcome" where
  "COND_WAIT_linux t cond mutex w =
     check_ret ''cond_wait failed: %s'' (pthread_cond_wait t cond mutex w)"

definition COND_SIGNAL_linux :: "nat \<Rightarrow> linux \<Rightarrow> (linux, linux_pending) outcome" where
  "COND_SIGNAL_linux cond w =
     (let (ret, w1) = pthread_cond_signal cond w
      in check_ret ''cond_signal failed: %s'' (Returns ret w1))"

text \<open>A blocked thread goes on, in a later state, from the native call it waits in.\<close>

fun resume_linux :: "linux_pending \<Rightarrow> linux \<Rightarrow> (linux, linux_pending) outcome" where
  "resume_linux (In_pthread_mutex_lock t m) w =
     check_ret ''mutex_lock failed: %s'' (mutex_acquire (In_pthread_mutex_lock t m) t m w)"
| "resume_linux (In_pthread_cond_wait t c m) w =
     check_ret ''cond_wait failed: %s'' (cond_wake t c m w)"
| "resume_linux (In_pthread_cond_wait_mutex t m) w =
     check_ret ''cond_wait failed: %s'' (mutex_acquire (In_pthread_cond_wait_mutex t m) t m w)"

subsection \<open>DLL operations (lines 100-114)\<close>


definition dlopen :: "string \<Rightarrow> linux \<Rightarrow> nat \<times> linux" where
  "dlopen filename w =
     (case l_files w filename of
        None \<Rightarrow> (NULL, w\<lparr>l_dlerror := Some (filename @ '': cannot open shared object file'')\<rparr>)
      | Some so \<Rightarrow>
          (let h = Suc (l_opened w)
           in (h, w\<lparr>l_opened := h, l_modules := (l_modules w)(h := Some so)\<rparr>)))"


definition dlclose :: "nat \<Rightarrow> linux \<Rightarrow> int \<times> linux" where
  "dlclose h w =
     (case l_modules w h of
        None \<Rightarrow> (- 1, w\<lparr>l_dlerror := Some ''invalid handle''\<rparr>)
      | Some so \<Rightarrow> (0, w\<lparr>l_modules := (l_modules w)(h := None)\<rparr>))"

definition dlerror :: "linux \<Rightarrow> string option \<times> linux" where
  "dlerror w = (l_dlerror w, w\<lparr>l_dlerror := None\<rparr>)"

definition DLOPEN_linux :: "string \<Rightarrow> linux \<Rightarrow> nat \<times> linux" where
  "DLOPEN_linux filename w = dlopen filename w"


definition DLCLOSE_linux :: "nat \<Rightarrow> linux \<Rightarrow> (linux, linux_pending) outcome" where
  "DLCLOSE_linux handle w = (let (r, w') = dlclose handle w in Returns r w')"

definition DLERROR_linux :: "linux \<Rightarrow> string option \<times> linux" where
  "DLERROR_linux w = dlerror w"

section \<open>Calling a function pointer without segfaulting\<close>

text \<open>
  Modelled from the spec: \<^verbatim>\<open>os_safe_call\<close> is declared in the header (line 141, "Attempt to
  call the given function pointer, without segfaulting") and defined outside src/, as
  are \<^verbatim>\<open>mBOOL\<close> and \<^verbatim>\<open>REG_CMD_FN\<close>. The spec: the call invokes the function pointer inside a
  fault boundary that intercepts a synchronous fatal fault (invalid memory access,
  illegal instruction) occurring during that single call and converts it into a
  reported failure instead of terminating the host; the boundary is established for
  every individual call and never left armed across calls; the callee's partial side
  effects are not undone. \<^verbatim>\<open>mTRUE\<close> stands for Completed, \<^verbatim>\<open>mFALSE\<close> for Faulted.

  A function is what it does to the memory of the process when it is called: the
  memory it leaves, and the fault it ended by, if it did not return.
\<close>

datatype mBOOL = mFALSE | mTRUE

datatype fault = Invalid_memory_access | Illegal_instruction

type_synonym REG_CMD_FN = "(nat \<Rightarrow> nat) \<Rightarrow> fault option \<times> (nat \<Rightarrow> nat)"

record process =
  alive :: bool
  boundary :: bool
  memory :: "nat \<Rightarrow> nat"

text \<open>A fault raised in the process: it terminates a process that has no boundary set.\<close>

definition raise_fault :: "fault \<Rightarrow> process \<Rightarrow> process" where
  "raise_fault f p = (if boundary p then p else p\<lparr>alive := False\<rparr>)"

text \<open>The call itself, \<^verbatim>\<open>pfn()\<close>.\<close>

definition invoke :: "REG_CMD_FN \<Rightarrow> process \<Rightarrow> fault option \<times> process" where
  "invoke pfn p =
     (case pfn (memory p) of
        (None, m) \<Rightarrow> (None, p\<lparr>memory := m\<rparr>)
      | (Some f, m) \<Rightarrow> (Some f, raise_fault f (p\<lparr>memory := m\<rparr>)))"

definition os_safe_call :: "REG_CMD_FN \<Rightarrow> process \<Rightarrow> mBOOL \<times> process" where
  "os_safe_call pfn p =
     (if \<not> alive p then (mFALSE, p)
      else
        let (f, p1) = invoke pfn (p\<lparr>boundary := True\<rparr>)
        in (if f = None then mTRUE else mFALSE, p1\<lparr>boundary := False\<rparr>))"

text \<open>Two functions: one stores 1 at address 0, one stores 2 there and then faults.\<close>

definition well_behaved :: REG_CMD_FN where
  "well_behaved m = (None, m(0 := 1))"

definition null_dereference :: REG_CMD_FN where
  "null_dereference m = (Some Invalid_memory_access, m(0 := 2))"

definition host_process :: process where
  "host_process = \<lparr>alive = True, boundary = False, memory = (\<lambda>a. 0)\<rparr>"

section \<open>Threads that wait\<close>

text \<open>
  \<open>run r ws\<close> follows a call whose first outcome is \<open>r\<close>: while the thread is blocked, the
  other threads go on, and the thread is resumed in the states they leave, \<open>ws\<close>, one
  after the other, until it returns or \<open>ws\<close> is used up.
\<close>

fun run_win32 ::
  "(win32, win32_pending) outcome \<Rightarrow> win32 list \<Rightarrow> (win32, win32_pending) outcome" where
  "run_win32 r [] = r"
| "run_win32 (Returns x s) (w # ws) = Returns x s"
| "run_win32 (Blocked s p) (w # ws) = run_win32 (resume_win32 p w) ws"

fun run_linux ::
  "(linux, linux_pending) outcome \<Rightarrow> linux list \<Rightarrow> (linux, linux_pending) outcome" where
  "run_linux r [] = r"
| "run_linux (Returns x s) (w # ws) = Returns x s"
| "run_linux (Blocked s p) (w # ws) = run_linux (resume_linux p w) ws"

text \<open>
  An outcome of \<^verbatim>\<open>COND_WAIT\<close> called by thread \<open>t\<close> with mutex \<open>m\<close>: the call has returned and
  \<open>t\<close> owns \<open>m\<close>, or \<open>t\<close> is blocked inside that call.
\<close>

definition wait_of_win32 :: "nat \<Rightarrow> nat \<Rightarrow> (win32, win32_pending) outcome \<Rightarrow> bool" where
  "wait_of_win32 t m r =
     (case r of
        Returns x s \<Rightarrow> OwningThread (w_sections s m) = Some t \<and> \<not> damaged (w_sections s m)
      | Blocked s p \<Rightarrow>
          (case p of
             In_MUTEX_LOCK t' m' \<Rightarrow> False
           | In_COND_WAIT_wait t' h m' \<Rightarrow> t' = t \<and> m' = m
           | In_COND_WAIT_enter t' m' ret \<Rightarrow> t' = t \<and> m' = m))"

definition wait_of_linux :: "nat \<Rightarrow> nat \<Rightarrow> (linux, linux_pending) outcome \<Rightarrow> bool" where
  "wait_of_linux t m r =
     (case r of
        Returns x s \<Rightarrow> l_mutexes s m = Some t
      | Blocked s p \<Rightarrow>
          (case p of
             In_pthread_mutex_lock t' m' \<Rightarrow> False
           | In_pthread_cond_wait t' c m' \<Rightarrow> t' = t \<and> m' = m
           | In_pthread_cond_wait_mutex t' m' \<Rightarrow> t' = t \<and> m' = m))"

text \<open>
  The threads a signal wakes. \<open>ps\<close> are threads blocked inside wrappers; after the signal
  they are resumed one after the other, in the order of the list, each in the state the
  one before has left. \<open>woken resume ps w\<close> counts those that are then no longer blocked
  where they were.
\<close>

definition still_blocked :: "'p \<Rightarrow> ('s, 'p) outcome \<Rightarrow> bool" where
  "still_blocked p r = (case r of Blocked s q \<Rightarrow> q = p | Returns x s \<Rightarrow> False)"

fun woken :: "('p \<Rightarrow> 's \<Rightarrow> ('s, 'p) outcome) \<Rightarrow> 'p list \<Rightarrow> 's \<Rightarrow> nat" where
  "woken resume [] w = 0"
| "woken resume (p # ps) w =
     (let r = resume p w
      in (if still_blocked p r then 0 else 1) + woken resume ps (state_after r))"

text \<open>
  A thread blocked in \<^verbatim>\<open>COND_WAIT\<close>, in the wait itself: on Windows in \<^verbatim>\<open>WaitForSingleObject\<close>
  on the event with handle \<open>h\<close>, on linux asleep on the condition variable \<open>c\<close>.
\<close>

fun waits_on_win32 :: "nat \<Rightarrow> win32_pending \<Rightarrow> bool" where
  "waits_on_win32 h (In_COND_WAIT_wait t h' m) = (h' = h)"
| "waits_on_win32 h p = False"

fun waits_on_linux :: "nat \<Rightarrow> linux_pending \<Rightarrow> bool" where
  "waits_on_linux c (In_pthread_cond_wait t c' m) = (c' = c)"
| "waits_on_linux c p = False"

fun thread_of :: "linux_pending \<Rightarrow> nat" where
  "thread_of (In_pthread_mutex_lock t m) = t"
| "thread_of (In_pthread_cond_wait t c m) = t"
| "thread_of (In_pthread_cond_wait_mutex t m) = t"

section \<open>Initial states\<close>

text \<open>
  A process in which nothing has been created yet; the kernel will grant three handles.
\<close>

definition win32_boot :: win32 where
  "win32_boot =
     \<lparr>w_log = [], w_last_error = [], w_kernel = [4, 8, 12],
      w_events = (\<lambda>h. None),
      w_sections = (\<lambda>m. \<lparr>OwningThread = None, RecursionCount = 0, damaged = False\<rparr>),
      w_cond_vars = (\<lambda>c. 0), w_thread_ids = (\<lambda>a. 0), w_threads = [],
      w_files = (\<lambda>f. None), w_modules = (\<lambda>h. None)\<rparr>"

definition linux_boot :: linux where
  "linux_boot =
     \<lparr>l_log = [], l_errnos = [],
      l_threads = [], l_thread_ids = (\<lambda>a. 0),
      l_mutexes = (\<lambda>m. None), l_conds = (\<lambda>c. []), l_picks = [], l_early_detach = [],
      l_dlerror = None, l_opened = 0,
      l_files = (\<lambda>f. None), l_modules = (\<lambda>h. None)\<rparr>"

text \<open>
  A host with one plugin file on disk, which exports two functions; on linux the plugin
  needs the C library, which is loaded with it.
\<close>

definition plugin_exports :: "string \<Rightarrow> nat option" where
  "plugin_exports = [''Meta_Query'' \<mapsto> 4096, ''Meta_Attach'' \<mapsto> 4128]"

definition libc_exports :: "string \<Rightarrow> nat option" where
  "libc_exports = [''malloc'' \<mapsto> 8192]"

definition plugin_so :: shared_object where
  "plugin_so = \<lparr>so_exports = plugin_exports, so_needed = [libc_exports]\<rparr>"

definition win32_host :: win32 where
  "win32_host = win32_boot\<lparr>w_files := [''plugin.dll'' \<mapsto> plugin_exports]\<rparr>"

definition linux_host :: linux where
  "linux_host = linux_boot\<lparr>l_files := [''plugin.so'' \<mapsto> plugin_so]\<rparr>"

text \<open>
  A mutex (at address 7) and a condition variable (at address 9) are initialised, and
  thread 1 locks the mutex. On Windows thread 1 then calls \<^verbatim>\<open>COND_WAIT\<close> and blocks; thread 2
  locks the mutex, signals the condition variable and unlocks the mutex.
\<close>

definition win32_ready :: win32 where
  "win32_ready = state_after (COND_INIT_win32 9 (state_after (MUTEX_INIT_win32 7 win32_boot)))"

definition win32_locked :: win32 where
  "win32_locked = state_after (MUTEX_LOCK_win32 1 7 win32_ready)"

definition win32_signalled :: win32 where
  "win32_signalled =
     state_after (MUTEX_UNLOCK_win32 2 7
       (state_after (COND_SIGNAL_win32 9
         (state_after (MUTEX_LOCK_win32 2 7
           (state_after (COND_WAIT_win32 1 9 7 win32_locked)))))))"

definition linux_ready :: linux where
  "linux_ready = state_after (COND_INIT_linux 9 (state_after (MUTEX_INIT_linux 7 linux_boot)))"

definition linux_locked :: linux where
  "linux_locked = state_after (MUTEX_LOCK_linux 1 7 linux_ready)"

definition linux_signalled :: linux where
  "linux_signalled =
     state_after (MUTEX_UNLOCK_linux 2 7
       (state_after (COND_SIGNAL_linux 9
         (state_after (MUTEX_LOCK_linux 2 7
           (state_after (COND_WAIT_linux 1 9 7 linux_locked)))))))"

text \<open>Threads 1 and 2 both wait on the condition variable, each after locking the mutex.\<close>

definition win32_two_waiters :: win32 where
  "win32_two_waiters =
     state_after (COND_WAIT_win32 2 9 7
       (state_after (MUTEX_LOCK_win32 2 7
         (state_after (COND_WAIT_win32 1 9 7 win32_locked)))))"

definition linux_two_waiters :: linux where
  "linux_two_waiters =
     state_after (COND_WAIT_linux 2 9 7
       (state_after (MUTEX_LOCK_linux 2 7
         (state_after (COND_WAIT_linux 1 9 7 linux_locked)))))"

section \<open>Properties\<close>

subsection \<open>Evaluation of the wrappers\<close>

lemmas outcome_defs = returned_def state_after_def THREAD_OK_def NULL_def

lemmas win32_mutex_defs =
  MUTEX_INIT_win32_def MUTEX_LOCK_win32_def MUTEX_UNLOCK_win32_def
  InitializeCriticalSection_def EnterCriticalSection_def LeaveCriticalSection_def

lemmas win32_cond_defs =
  COND_INIT_win32_def CreateEvent_def kernel_grant_def COND_WAIT_win32_def
  COND_WAIT_win32_wait_def COND_WAIT_win32_enter_def WaitForSingleObject_def SetEvent_def
  COND_SIGNAL_win32_def WAIT_OBJECT_0_def WAIT_FAILED_def win32_META_ERROR_def
  str_GetLastError_def

lemmas linux_sync_defs =
  MUTEX_INIT_linux_def MUTEX_LOCK_linux_def MUTEX_UNLOCK_linux_def COND_INIT_linux_def
  COND_WAIT_linux_def COND_SIGNAL_linux_def check_ret_def pthread_mutex_init_def
  pthread_mutex_lock_def pthread_mutex_unlock_def pthread_cond_init_def pthread_cond_wait_def
  pthread_cond_signal_def mutex_acquire_def cond_wake_def platform_errno_def
  platform_pick_def restart_def linux_META_ERROR_def

lemmas scenario_defs =
  win32_boot_def linux_boot_def win32_ready_def win32_locked_def win32_signalled_def
  linux_ready_def linux_locked_def linux_signalled_def win32_two_waiters_def
  linux_two_waiters_def

lemma returned_Some: "returned r = Some x \<Longrightarrow> r = Returns x (state_after r)"
  by (cases r) (simp_all add: returned_def state_after_def)

subsection \<open>The Windows mutex cannot fail\<close>

text \<open>
  C9. Under the Windows backing \<^verbatim>\<open>MUTEX_INIT\<close>, \<^verbatim>\<open>MUTEX_LOCK\<close> and \<^verbatim>\<open>MUTEX_UNLOCK\<close> return
  nothing but \<^verbatim>\<open>THREAD_OK\<close>, which is 0, and log nothing: init and unlock return it in every
  state; lock returns it exactly when the critical section is free or the caller's own
  (and not damaged), and otherwise the caller waits, also when it is resumed.
\<close>

theorem win32_mutex_never_fails:
  "returned (MUTEX_INIT_win32 m w) = Some THREAD_OK
   \<and> returned (MUTEX_UNLOCK_win32 t m w) = Some THREAD_OK
   \<and> (returned (MUTEX_LOCK_win32 t m w) = Some THREAD_OK
        \<or> MUTEX_LOCK_win32 t m w = Blocked w (In_MUTEX_LOCK t m))
   \<and> (returned (resume_win32 (In_MUTEX_LOCK t m) w) = Some THREAD_OK
        \<or> resume_win32 (In_MUTEX_LOCK t m) w = Blocked w (In_MUTEX_LOCK t m))
   \<and> (returned (MUTEX_LOCK_win32 t m w) = Some THREAD_OK) =
       (\<not> damaged (w_sections w m) \<and> OwningThread (w_sections w m) \<in> {None, Some t})
   \<and> w_log (state_after (MUTEX_INIT_win32 m w)) = w_log w
   \<and> w_log (state_after (MUTEX_UNLOCK_win32 t m w)) = w_log w
   \<and> w_log (state_after (MUTEX_LOCK_win32 t m w)) = w_log w
   \<and> THREAD_OK = 0"
  by (auto simp: outcome_defs win32_mutex_defs Let_def split: option.splits)

theorem win32_mutex_never_fails_witness:
  "returned (MUTEX_LOCK_win32 1 7 win32_boot) = Some 0
   \<and> MUTEX_LOCK_win32 2 7 (state_after (MUTEX_LOCK_win32 1 7 win32_boot)) =
       Blocked (state_after (MUTEX_LOCK_win32 1 7 win32_boot)) (In_MUTEX_LOCK 2 7)
   \<and> returned (MUTEX_UNLOCK_win32 2 7 win32_boot) = Some 0"
  using win32_mutex_never_fails [of 7 win32_boot 1] win32_mutex_never_fails [of 7 win32_boot 2]
  by (simp add: outcome_defs win32_mutex_defs win32_boot_def Let_def)

subsection \<open>The result encoding\<close>

lemma enc_MUTEX_LOCK_linux:
  "encodes (MUTEX_LOCK_linux t m w) (returned (pthread_mutex_lock t m w) = Some 0)"
  by (simp add: encodes_def MUTEX_LOCK_linux_def check_ret_def returned_def split: outcome.splits)

lemma enc_MUTEX_LOCK_win32: "encodes (MUTEX_LOCK_win32 t m w) True"
  by (simp add: encodes_def MUTEX_LOCK_win32_def THREAD_OK_def split: option.splits)

lemma enc_COND_WAIT_linux:
  "encodes (COND_WAIT_linux t c m w) (returned (pthread_cond_wait t c m w) = Some 0)"
  by (simp add: encodes_def COND_WAIT_linux_def check_ret_def returned_def split: outcome.splits)

lemma enc_COND_WAIT_win32_enter:
  "encodes (COND_WAIT_win32_enter t m ret w) (ret = WAIT_OBJECT_0)"
  by (simp add: encodes_def COND_WAIT_win32_enter_def split: option.splits)

lemma enc_COND_WAIT_win32_wait:
  "encodes (COND_WAIT_win32_wait t h m w)
     (map_option fst (WaitForSingleObject h w) = Some WAIT_OBJECT_0)"
  by (auto simp add: encodes_def COND_WAIT_win32_wait_def COND_WAIT_win32_enter_def
      split: option.splits)

lemma enc_COND_WAIT_win32:
  "encodes (COND_WAIT_win32 t c m w)
     (map_option fst (WaitForSingleObject (w_cond_vars w c) (LeaveCriticalSection t m w))
        = Some WAIT_OBJECT_0)"
proof -
  have "w_cond_vars (LeaveCriticalSection t m w) c = w_cond_vars w c"
    by (simp add: LeaveCriticalSection_def Let_def)
  then show ?thesis
    using enc_COND_WAIT_win32_wait [of t "w_cond_vars w c" m "LeaveCriticalSection t m w"]
    by (simp add: COND_WAIT_win32_def Let_def)
qed

lemma enc_resume_linux: "encodes (resume_linux p w) True"
  by (cases p)
     (simp_all add: encodes_def check_ret_def mutex_acquire_def cond_wake_def THREAD_OK_def
        split: outcome.splits)

lemma ans_DLCLOSE:
  "answers (DLCLOSE_linux h lw) (l_modules lw h \<noteq> None)"
  "answers (DLCLOSE_win32 h ww) (w_modules ww h \<noteq> None)"
  "answers (DLCLOSE_linux h lw) (fst (dlclose h lw) = 0)"
  "answers (DLCLOSE_win32 h ww) (fst (FreeLibrary h ww) \<noteq> 0)"
  by (simp_all add: answers_def DLCLOSE_linux_def DLCLOSE_win32_def dlclose_def FreeLibrary_def
      split: option.splits)

lemma ans_linux:
  "answers (THREAD_CREATE_linux tid func w)
     (fst (pthread_create tid func w) = 0
      \<and> fst (pthread_detach (l_thread_ids (snd (pthread_create tid func w)) tid)
                (snd (pthread_create tid func w))) = 0)"
  "answers (MUTEX_INIT_linux m w) (fst (pthread_mutex_init m w) = 0)"
  "answers (MUTEX_UNLOCK_linux t m w) (fst (pthread_mutex_unlock t m w) = 0)"
  "answers (COND_INIT_linux c w) (fst (pthread_cond_init c w) = 0)"
  "answers (COND_SIGNAL_linux c w) (fst (pthread_cond_signal c w) = 0)"
  by (simp_all add: answers_def THREAD_CREATE_linux_def MUTEX_INIT_linux_def
      MUTEX_UNLOCK_linux_def COND_INIT_linux_def COND_SIGNAL_linux_def check_ret_def Let_def
      split: prod.splits)

lemma ans_win32:
  "answers (THREAD_CREATE_win32 tid func w) (fst (CreateThread func tid w) \<noteq> NULL)"
  "answers (MUTEX_INIT_win32 m w) True"
  "answers (MUTEX_UNLOCK_win32 t m w) True"
  "answers (COND_INIT_win32 c w) (fst (CreateEvent False False w) \<noteq> NULL)"
  "answers (COND_SIGNAL_win32 c w) (fst (SetEvent (w_cond_vars w c) w) \<noteq> 0)"
  by (simp_all add: answers_def THREAD_CREATE_win32_def MUTEX_INIT_win32_def
      MUTEX_UNLOCK_win32_def COND_INIT_win32_def COND_SIGNAL_win32_def THREAD_OK_def Let_def
      split: prod.splits)

text \<open>
  C6. On both backings a wrapper that returns an \<^verbatim>\<open>int\<close> returns 0 for success and a
  non-zero value for failure, success being what the native calls it makes report in
  their own conventions: the linux calls return 0; \<^verbatim>\<open>FreeLibrary\<close> and \<^verbatim>\<open>SetEvent\<close> return
  non-zero, \<^verbatim>\<open>CreateThread\<close> and \<^verbatim>\<open>CreateEvent\<close> a handle that is not \<^verbatim>\<open>NULL\<close>,
  \<^verbatim>\<open>WaitForSingleObject\<close> returns \<^verbatim>\<open>WAIT_OBJECT_0\<close>, and the critical-section calls return
  nothing. \<^verbatim>\<open>DLCLOSE\<close> returns 0 exactly for a loaded module on either platform. The
  wrappers that may wait (\<^verbatim>\<open>MUTEX_LOCK\<close>, \<^verbatim>\<open>COND_WAIT\<close>) follow the encoding whenever they
  return, at once or after the thread was resumed.
\<close>

theorem result_encoding_on_both_backings:
  "answers (DLCLOSE_linux h lw) (fst (dlclose h lw) = 0)
   \<and> answers (DLCLOSE_win32 h ww) (fst (FreeLibrary h ww) \<noteq> 0)
   \<and> answers (DLCLOSE_linux h lw) (l_modules lw h \<noteq> None)
   \<and> answers (DLCLOSE_win32 h ww) (w_modules ww h \<noteq> None)
   \<and> answers (THREAD_CREATE_linux tid func lw)
        (fst (pthread_create tid func lw) = 0
         \<and> fst (pthread_detach (l_thread_ids (snd (pthread_create tid func lw)) tid)
                   (snd (pthread_create tid func lw))) = 0)
   \<and> answers (THREAD_CREATE_win32 tid func ww) (fst (CreateThread func tid ww) \<noteq> NULL)
   \<and> answers (MUTEX_INIT_linux m lw) (fst (pthread_mutex_init m lw) = 0)
   \<and> answers (MUTEX_INIT_win32 m ww) True
   \<and> encodes (MUTEX_LOCK_linux t m lw) (returned (pthread_mutex_lock t m lw) = Some 0)
   \<and> encodes (MUTEX_LOCK_win32 t m ww) True
   \<and> answers (MUTEX_UNLOCK_linux t m lw) (fst (pthread_mutex_unlock t m lw) = 0)
   \<and> answers (MUTEX_UNLOCK_win32 t m ww) True
   \<and> answers (COND_INIT_linux c lw) (fst (pthread_cond_init c lw) = 0)
   \<and> answers (COND_INIT_win32 c ww) (fst (CreateEvent False False ww) \<noteq> NULL)
   \<and> encodes (COND_WAIT_linux t c m lw) (returned (pthread_cond_wait t c m lw) = Some 0)
   \<and> encodes (COND_WAIT_win32 t c m ww)
        (map_option fst (WaitForSingleObject (w_cond_vars ww c) (LeaveCriticalSection t m ww))
           = Some WAIT_OBJECT_0)
   \<and> answers (COND_SIGNAL_linux c lw) (fst (pthread_cond_signal c lw) = 0)
   \<and> answers (COND_SIGNAL_win32 c ww) (fst (SetEvent (w_cond_vars ww c) ww) \<noteq> 0)
   \<and> encodes (resume_linux p lw) True
   \<and> encodes (resume_win32 (In_MUTEX_LOCK t m) ww) True
   \<and> encodes (resume_win32 (In_COND_WAIT_wait t h m) ww)
        (map_option fst (WaitForSingleObject h ww) = Some WAIT_OBJECT_0)
   \<and> encodes (resume_win32 (In_COND_WAIT_enter t m ret) ww) (ret = WAIT_OBJECT_0)"
  unfolding resume_win32.simps
  by (intro conjI ans_DLCLOSE ans_linux ans_win32 enc_MUTEX_LOCK_linux enc_MUTEX_LOCK_win32
      enc_COND_WAIT_linux enc_COND_WAIT_win32 enc_resume_linux enc_COND_WAIT_win32_wait
      enc_COND_WAIT_win32_enter)

text \<open>
  The same close of the plugin on both platforms: the native calls answer 0 (linux)
  and 1 (Windows), both wrappers 0; closing a handle that is not loaded gives - 1
  (linux) and 1 (Windows), both non-zero.
\<close>

theorem result_encoding_on_both_backings_witness:
  "fst (dlclose 1 (snd (DLOPEN_linux ''plugin.so'' linux_host))) = 0
   \<and> returned (DLCLOSE_linux 1 (snd (DLOPEN_linux ''plugin.so'' linux_host))) = Some 0
   \<and> fst (FreeLibrary 4 (snd (DLOPEN_win32 ''plugin.dll'' win32_host))) = 1
   \<and> returned (DLCLOSE_win32 4 (snd (DLOPEN_win32 ''plugin.dll'' win32_host))) = Some 0
   \<and> returned (DLCLOSE_linux 1 linux_host) = Some (- 1)
   \<and> returned (DLCLOSE_win32 4 win32_host) = Some 1"
  using result_encoding_on_both_backings
    [of 1 "snd (DLOPEN_linux ''plugin.so'' linux_host)"
        "snd (DLOPEN_win32 ''plugin.dll'' win32_host)"]
  by (simp add: outcome_defs answers_def DLOPEN_linux_def DLOPEN_win32_def dlopen_def
      LoadLibrary_def kernel_grant_def DLCLOSE_linux_def DLCLOSE_win32_def dlclose_def
      FreeLibrary_def linux_host_def linux_boot_def win32_host_def win32_boot_def)

subsection \<open>Failures are logged and returned\<close>

lemma logged_META_ERROR:
  "format_s fmt a = p @ a \<Longrightarrow> logged p lg (META_ERROR fmt a lg)"
  by (simp add: META_ERROR_def logged_def)


lemma rep_check_ret:
  assumes "\<And>a. format_s fmt a = p @ a" and "l_log (state_after r) = lg"
  shows "failure_reported (returned r \<notin> {None, Some 0}) p lg l_log (check_ret fmt r)"
proof (cases r)
  case (Returns x s)
  have "logged p (l_log s) (l_log (linux_META_ERROR fmt (strerror x) s))"
    by (simp add: linux_META_ERROR_def logged_META_ERROR assms(1))
  with Returns assms(2) show ?thesis
    by (simp add: failure_reported_def check_ret_def returned_def state_after_def THREAD_OK_def)
next
  case (Blocked s q)
  with assms(2) show ?thesis
    by (simp add: failure_reported_def check_ret_def state_after_def)
qed

lemma linux_native_log:
  "l_log (snd (pthread_create tid func w)) = l_log w"
  "l_log (snd (pthread_detach th w)) = l_log w"
  "l_log (snd (pthread_mutex_init m w)) = l_log w"
  "l_log (snd (pthread_mutex_unlock t m w)) = l_log w"
  "l_log (snd (pthread_cond_init c w)) = l_log w"
  "l_log (snd (pthread_cond_signal c w)) = l_log w"
  "l_log (state_after (pthread_mutex_lock t m w)) = l_log w"
  "l_log (state_after (pthread_cond_wait t c m w)) = l_log w"
  "l_log (state_after (mutex_acquire p t m w)) = l_log w"
  "l_log (state_after (cond_wake t c m w)) = l_log w"
  by (simp_all add: pthread_create_def pthread_detach_def pthread_mutex_init_def
      pthread_mutex_unlock_def pthread_cond_init_def pthread_cond_signal_def
      pthread_mutex_lock_def pthread_cond_wait_def mutex_acquire_def cond_wake_def
      platform_errno_def platform_pick_def platform_early_detach_def state_after_def Let_def
      split: list.splits option.splits)

lemma rep_nonblocking_linux:
  assumes "\<And>a. format_s fmt a = p @ a" and "l_log (snd n) = lg"
  shows "failure_reported (fst n \<noteq> 0) p lg l_log
           (let (ret, w1) = n in check_ret fmt (Returns ret w1))"
proof -
  obtain ret w1 where n: "n = (ret, w1)" by (cases n)
  have "failure_reported (returned (Returns ret w1 :: (linux, linux_pending) outcome) \<notin> {None, Some 0})
      p lg l_log (check_ret fmt (Returns ret w1))"
    using assms n by (intro rep_check_ret) (simp_all add: state_after_def)
  with n show ?thesis
    by (simp add: returned_def)
qed

lemma rep_MUTEX_INIT_linux:
  "failure_reported (fst (pthread_mutex_init m w) \<noteq> 0) ''mutex_init failed: '' (l_log w) l_log
     (MUTEX_INIT_linux m w)"
  unfolding MUTEX_INIT_linux_def
  by (rule rep_nonblocking_linux) (simp_all add: linux_native_log)

lemma rep_MUTEX_UNLOCK_linux:
  "failure_reported (fst (pthread_mutex_unlock t m w) \<noteq> 0) ''mutex_unlock failed: '' (l_log w)
     l_log (MUTEX_UNLOCK_linux t m w)"
  unfolding MUTEX_UNLOCK_linux_def
  by (rule rep_nonblocking_linux) (simp_all add: linux_native_log)

lemma rep_COND_INIT_linux:
  "failure_reported (fst (pthread_cond_init c w) \<noteq> 0) ''cond_init failed: '' (l_log w) l_log
     (COND_INIT_linux c w)"
  unfolding COND_INIT_linux_def
  by (rule rep_nonblocking_linux) (simp_all add: linux_native_log)

lemma rep_COND_SIGNAL_linux:
  "failure_reported (fst (pthread_cond_signal c w) \<noteq> 0) ''cond_signal failed: '' (l_log w)
     l_log (COND_SIGNAL_linux c w)"
  unfolding COND_SIGNAL_linux_def
  by (rule rep_nonblocking_linux) (simp_all add: linux_native_log)

lemma rep_MUTEX_LOCK_linux:
  "failure_reported (returned (pthread_mutex_lock t m w) \<notin> {None, Some 0})
     ''mutex_lock failed: '' (l_log w) l_log (MUTEX_LOCK_linux t m w)"
  unfolding MUTEX_LOCK_linux_def
  by (rule rep_check_ret) (simp_all add: linux_native_log)

lemma rep_COND_WAIT_linux:
  "failure_reported (returned (pthread_cond_wait t c m w) \<notin> {None, Some 0})
     ''cond_wait failed: '' (l_log w) l_log (COND_WAIT_linux t c m w)"
  unfolding COND_WAIT_linux_def
  by (rule rep_check_ret) (simp_all add: linux_native_log)

lemma resumed_native_linux:
  "returned (mutex_acquire p t m w) \<in> {None, Some 0}"
  "returned (cond_wake t c m w) \<in> {None, Some 0}"
  by (simp_all add: mutex_acquire_def cond_wake_def returned_def)

lemma rep_resume_linux:
  "failure_reported False [] (l_log w) l_log (resume_linux p w)"
proof (cases p)
  case (In_pthread_mutex_lock t m)
  have "failure_reported (returned (mutex_acquire p t m w) \<notin> {None, Some 0})
     ''mutex_lock failed: '' (l_log w) l_log (check_ret ''mutex_lock failed: %s'' (mutex_acquire p t m w))"
    by (rule rep_check_ret) (simp_all add: linux_native_log)
  with In_pthread_mutex_lock resumed_native_linux(1) [of p t m w] show ?thesis
    by (simp add: failure_reported_def split: outcome.splits)
next
  case (In_pthread_cond_wait t c m)
  have "failure_reported (returned (cond_wake t c m w) \<notin> {None, Some 0})
     ''cond_wait failed: '' (l_log w) l_log (check_ret ''cond_wait failed: %s'' (cond_wake t c m w))"
    by (rule rep_check_ret) (simp_all add: linux_native_log)
  with In_pthread_cond_wait resumed_native_linux(2) [of t c m w] show ?thesis
    by (simp add: failure_reported_def split: outcome.splits)
next
  case (In_pthread_cond_wait_mutex t m)
  have "failure_reported (returned (mutex_acquire p t m w) \<notin> {None, Some 0})
     ''cond_wait failed: '' (l_log w) l_log (check_ret ''cond_wait failed: %s'' (mutex_acquire p t m w))"
    by (rule rep_check_ret) (simp_all add: linux_native_log)
  with In_pthread_cond_wait_mutex resumed_native_linux(1) [of p t m w] show ?thesis
    by (simp add: failure_reported_def split: outcome.splits)
qed

lemma rep_THREAD_CREATE_linux:
  "failure_reported
     (fst (pthread_create tid func w) \<noteq> 0
      \<or> fst (pthread_detach (l_thread_ids (snd (pthread_create tid func w)) tid)
                (snd (pthread_create tid func w))) \<noteq> 0)
     (if fst (pthread_create tid func w) \<noteq> 0
      then ''Failure starting thread: '' else ''Failure detaching thread: '')
     (l_log w) l_log (THREAD_CREATE_linux tid func w)"
proof -
  obtain r1 w1 where c: "pthread_create tid func w = (r1, w1)"
    by (cases "pthread_create tid func w")
  obtain r2 w2 where d: "pthread_detach (l_thread_ids w1 tid) w1 = (r2, w2)"
    by (cases "pthread_detach (l_thread_ids w1 tid) w1")
  have l1: "l_log w1 = l_log w"
    using linux_native_log(1) [of tid func w] c by simp
  have l2: "l_log w2 = l_log w"
    using linux_native_log(2) [of "l_thread_ids w1 tid" w1] d l1 by simp
  have s: "logged ''Failure starting thread: '' (l_log w1)
             (l_log (linux_META_ERROR ''Failure starting thread: %s'' (strerror r1) w1))"
    by (simp add: linux_META_ERROR_def logged_META_ERROR)
  have t: "logged ''Failure detaching thread: '' (l_log w2)
             (l_log (linux_META_ERROR ''Failure detaching thread: %s'' (strerror r2) w2))"
    by (simp add: linux_META_ERROR_def logged_META_ERROR)
  from c d l1 l2 s t show ?thesis
    by (simp add: failure_reported_def THREAD_CREATE_linux_def Let_def)
qed


lemma win32_native_log:
  "w_log (snd (CreateThread func tid w)) = w_log w"
  "w_log (snd (CreateEvent manual initial w)) = w_log w"
  "w_log (snd (SetEvent h w)) = w_log w"
  "w_log (LeaveCriticalSection t m w) = w_log w"
  "w_log (InitializeCriticalSection m w) = w_log w"
  "EnterCriticalSection t m w = Some w' \<Longrightarrow> w_log w' = w_log w"
  "WaitForSingleObject h w = Some (ret, w') \<Longrightarrow> w_log w' = w_log w"
  by (auto simp: CreateThread_def CreateEvent_def SetEvent_def LeaveCriticalSection_def
      InitializeCriticalSection_def EnterCriticalSection_def WaitForSingleObject_def
      kernel_grant_def Let_def split: list.splits option.splits if_splits)

lemma logged_win32:
  "format_s fmt a = p @ a \<Longrightarrow> logged p (w_log w) (w_log (win32_META_ERROR fmt a w))"
  by (simp add: win32_META_ERROR_def logged_META_ERROR)

lemma rep_THREAD_CREATE_win32:
  "failure_reported (fst (CreateThread func tid w) = NULL) ''Failure starting thread: ''
     (w_log w) w_log (THREAD_CREATE_win32 tid func w)"
proof -
  obtain ret w1 where n: "CreateThread func tid w = (ret, w1)"
    by (cases "CreateThread func tid w")
  have "w_log w1 = w_log w"
    using win32_native_log(1) [of func tid w] n by simp
  moreover have "logged ''Failure starting thread: '' (w_log w1)
      (w_log (win32_META_ERROR ''Failure starting thread: %s'' (str_GetLastError w1) w1))"
    by (rule logged_win32) simp
  ultimately show ?thesis using n
    by (simp add: failure_reported_def THREAD_CREATE_win32_def Let_def NULL_def)
qed

lemma rep_COND_INIT_win32:
  "failure_reported (fst (CreateEvent False False w) = NULL) ''cond_init failed: ''
     (w_log w) w_log (COND_INIT_win32 c w)"
proof -
  obtain h w1 where n: "CreateEvent False False w = (h, w1)"
    by (cases "CreateEvent False False w")
  define w2 where "w2 = w1\<lparr>w_cond_vars := (w_cond_vars w1)(c := h)\<rparr>"
  have "w_log w2 = w_log w"
    using win32_native_log(2) [of False False w] n by (simp add: w2_def)
  moreover have "logged ''cond_init failed: '' (w_log w2)
      (w_log (win32_META_ERROR ''cond_init failed: %s'' (str_GetLastError w2) w2))"
    by (rule logged_win32) simp
  ultimately show ?thesis using n
    by (auto simp add: failure_reported_def COND_INIT_win32_def Let_def w2_def)
qed

lemma rep_COND_SIGNAL_win32:
  "failure_reported (fst (SetEvent (w_cond_vars w c) w) = 0) ''cond_signal failed: ''
     (w_log w) w_log (COND_SIGNAL_win32 c w)"
proof -
  obtain ret w1 where n: "SetEvent (w_cond_vars w c) w = (ret, w1)"
    by (cases "SetEvent (w_cond_vars w c) w")
  have "w_log w1 = w_log w"
    using win32_native_log(3) [of "w_cond_vars w c" w] n by simp
  moreover have "logged ''cond_signal failed: '' (w_log w1)
      (w_log (win32_META_ERROR ''cond_signal failed: %s'' (str_GetLastError w1) w1))"
    by (rule logged_win32) simp
  ultimately show ?thesis using n
    by (simp add: failure_reported_def COND_SIGNAL_win32_def Let_def)
qed

lemma rep_COND_WAIT_win32_enter:
  "failure_reported (ret \<noteq> WAIT_OBJECT_0) ''cond_wait failed: '' (w_log w) w_log
     (COND_WAIT_win32_enter t m ret w)"
proof (cases "EnterCriticalSection t m w")
  case None
  then show ?thesis
    by (simp add: failure_reported_def COND_WAIT_win32_enter_def)
next
  case (Some w')
  have "w_log w' = w_log w"
    using win32_native_log(6) Some by simp
  moreover have "logged ''cond_wait failed: '' (w_log w')
      (w_log (win32_META_ERROR ''cond_wait failed: %s'' (str_GetLastError w') w'))"
    by (rule logged_win32) simp
  ultimately show ?thesis using Some
    by (simp add: failure_reported_def COND_WAIT_win32_enter_def)
qed

lemma rep_COND_WAIT_win32_wait:
  "failure_reported (map_option fst (WaitForSingleObject h w) \<notin> {None, Some WAIT_OBJECT_0})
     ''cond_wait failed: '' (w_log w) w_log (COND_WAIT_win32_wait t h m w)"
proof (cases "WaitForSingleObject h w")
  case None
  then show ?thesis
    by (simp add: failure_reported_def COND_WAIT_win32_wait_def)
next
  case (Some a)
  obtain ret w' where a: "a = (ret, w')" by (cases a)
  have "w_log w' = w_log w"
    using win32_native_log(7) Some a by simp
  with rep_COND_WAIT_win32_enter [of ret w' t m] Some a show ?thesis
    by (simp add: COND_WAIT_win32_wait_def)
qed

lemma rep_COND_WAIT_win32:
  "failure_reported
     (map_option fst (WaitForSingleObject (w_cond_vars w c) (LeaveCriticalSection t m w))
        \<notin> {None, Some WAIT_OBJECT_0})
     ''cond_wait failed: '' (w_log w) w_log (COND_WAIT_win32 t c m w)"
proof -
  have "w_cond_vars (LeaveCriticalSection t m w) c = w_cond_vars w c"
    by (simp add: LeaveCriticalSection_def Let_def)
  with rep_COND_WAIT_win32_wait [of "w_cond_vars w c" "LeaveCriticalSection t m w" t m]
  show ?thesis
    by (simp add: COND_WAIT_win32_def Let_def win32_native_log(4))
qed

lemma rep_mutex_win32:
  "failure_reported False [] (w_log w) w_log (MUTEX_INIT_win32 m w)"
  "failure_reported False [] (w_log w) w_log (MUTEX_LOCK_win32 t m w)"
  "failure_reported False [] (w_log w) w_log (MUTEX_UNLOCK_win32 t m w)"
  by (auto simp: failure_reported_def MUTEX_INIT_win32_def MUTEX_LOCK_win32_def
      MUTEX_UNLOCK_win32_def win32_native_log split: option.splits)

lemma COND_WAIT_win32_invalid:
  assumes "OwningThread (w_sections w m) = Some t" and "\<not> damaged (w_sections w m)"
    and "w_events w (w_cond_vars w c) = None"
  shows "returned (COND_WAIT_win32 t c m w) = Some (- 1)"
  using assms
  by (simp add: COND_WAIT_win32_def COND_WAIT_win32_wait_def COND_WAIT_win32_enter_def
      LeaveCriticalSection_def WaitForSingleObject_def EnterCriticalSection_def Let_def
      returned_def WAIT_FAILED_def WAIT_OBJECT_0_def)

lemma returned_check_ret: "returned (check_ret fmt r) = returned r"
  by (simp add: check_ret_def returned_def split: outcome.splits)

lemma returns_linux:
  "returned (THREAD_CREATE_linux tid func w) \<noteq> None"
  "returned (MUTEX_INIT_linux m w) \<noteq> None"
  "returned (MUTEX_UNLOCK_linux t m w) \<noteq> None"
  "returned (COND_INIT_linux c w) \<noteq> None"
  "returned (COND_SIGNAL_linux c w) \<noteq> None"
  "returned (MUTEX_LOCK_linux t m w) = returned (pthread_mutex_lock t m w)"
  "returned (COND_WAIT_linux t c m w) = returned (pthread_cond_wait t c m w)"
  by (simp_all add: returned_def THREAD_CREATE_linux_def MUTEX_INIT_linux_def
      MUTEX_UNLOCK_linux_def COND_INIT_linux_def COND_SIGNAL_linux_def MUTEX_LOCK_linux_def
      COND_WAIT_linux_def check_ret_def Let_def split: prod.splits outcome.splits)

lemma returns_win32:
  "returned (THREAD_CREATE_win32 tid func w) \<noteq> None"
  "returned (COND_INIT_win32 c w) \<noteq> None"
  "returned (COND_SIGNAL_win32 c w) \<noteq> None"
  by (simp_all add: returned_def THREAD_CREATE_win32_def COND_INIT_win32_def
      COND_SIGNAL_win32_def Let_def split: prod.splits)

text \<open>
  C8. A call to a thread, mutex or condition-variable wrapper whose native call reports
  a failure returns a non-zero result to its caller and has added exactly one message
  to the log, which starts with the text of the wrapper's format string; a call whose
  native calls succeed logs nothing; and so does a thread that is resumed inside a
  wrapper. The failing call returns: at once, or, for the Windows \<^verbatim>\<open>COND_WAIT\<close>, once it
  has entered the critical section again (at once when the caller had owned it).
  The Windows mutex wrappers have no failure to report.
\<close>

theorem failures_logged_and_returned:
  "failure_reported
     (fst (pthread_create tid func lw) \<noteq> 0
      \<or> fst (pthread_detach (l_thread_ids (snd (pthread_create tid func lw)) tid)
                (snd (pthread_create tid func lw))) \<noteq> 0)
     (if fst (pthread_create tid func lw) \<noteq> 0
      then ''Failure starting thread: '' else ''Failure detaching thread: '')
     (l_log lw) l_log (THREAD_CREATE_linux tid func lw)
   \<and> failure_reported (fst (pthread_mutex_init m lw) \<noteq> 0) ''mutex_init failed: ''
        (l_log lw) l_log (MUTEX_INIT_linux m lw)
   \<and> failure_reported (returned (pthread_mutex_lock t m lw) \<notin> {None, Some 0})
        ''mutex_lock failed: '' (l_log lw) l_log (MUTEX_LOCK_linux t m lw)
   \<and> failure_reported (fst (pthread_mutex_unlock t m lw) \<noteq> 0) ''mutex_unlock failed: ''
        (l_log lw) l_log (MUTEX_UNLOCK_linux t m lw)
   \<and> failure_reported (fst (pthread_cond_init c lw) \<noteq> 0) ''cond_init failed: ''
        (l_log lw) l_log (COND_INIT_linux c lw)
   \<and> failure_reported (returned (pthread_cond_wait t c m lw) \<notin> {None, Some 0})
        ''cond_wait failed: '' (l_log lw) l_log (COND_WAIT_linux t c m lw)
   \<and> failure_reported (fst (pthread_cond_signal c lw) \<noteq> 0) ''cond_signal failed: ''
        (l_log lw) l_log (COND_SIGNAL_linux c lw)
   \<and> failure_reported False [] (l_log lw) l_log (resume_linux p lw)
   \<and> failure_reported (fst (CreateThread func tid ww) = NULL) ''Failure starting thread: ''
        (w_log ww) w_log (THREAD_CREATE_win32 tid func ww)
   \<and> failure_reported False [] (w_log ww) w_log (MUTEX_INIT_win32 m ww)
   \<and> failure_reported False [] (w_log ww) w_log (MUTEX_LOCK_win32 t m ww)
   \<and> failure_reported False [] (w_log ww) w_log (MUTEX_UNLOCK_win32 t m ww)
   \<and> failure_reported (fst (CreateEvent False False ww) = NULL) ''cond_init failed: ''
        (w_log ww) w_log (COND_INIT_win32 c ww)
   \<and> failure_reported
        (map_option fst (WaitForSingleObject (w_cond_vars ww c) (LeaveCriticalSection t m ww))
           \<notin> {None, Some WAIT_OBJECT_0})
        ''cond_wait failed: '' (w_log ww) w_log (COND_WAIT_win32 t c m ww)
   \<and> failure_reported (fst (SetEvent (w_cond_vars ww c) ww) = 0) ''cond_signal failed: ''
        (w_log ww) w_log (COND_SIGNAL_win32 c ww)
   \<and> failure_reported False [] (w_log ww) w_log (resume_win32 (In_MUTEX_LOCK t m) ww)
   \<and> failure_reported (map_option fst (WaitForSingleObject h ww) \<notin> {None, Some WAIT_OBJECT_0})
        ''cond_wait failed: '' (w_log ww) w_log (resume_win32 (In_COND_WAIT_wait t h m) ww)
   \<and> failure_reported (ret \<noteq> WAIT_OBJECT_0) ''cond_wait failed: '' (w_log ww) w_log
        (resume_win32 (In_COND_WAIT_enter t m ret) ww)
   \<and> returned (THREAD_CREATE_linux tid func lw) \<noteq> None
   \<and> returned (MUTEX_INIT_linux m lw) \<noteq> None
   \<and> returned (MUTEX_LOCK_linux t m lw) = returned (pthread_mutex_lock t m lw)
   \<and> returned (MUTEX_UNLOCK_linux t m lw) \<noteq> None
   \<and> returned (COND_INIT_linux c lw) \<noteq> None
   \<and> returned (COND_WAIT_linux t c m lw) = returned (pthread_cond_wait t c m lw)
   \<and> returned (COND_SIGNAL_linux c lw) \<noteq> None
   \<and> returned (THREAD_CREATE_win32 tid func ww) \<noteq> None
   \<and> returned (COND_INIT_win32 c ww) \<noteq> None
   \<and> returned (COND_SIGNAL_win32 c ww) \<noteq> None
   \<and> (OwningThread (w_sections ww m) = Some t \<and> \<not> damaged (w_sections ww m)
        \<and> w_events ww (w_cond_vars ww c) = None
        \<longrightarrow> returned (COND_WAIT_win32 t c m ww) = Some (- 1))"
  unfolding resume_win32.simps
  by (intro conjI impI rep_THREAD_CREATE_linux rep_MUTEX_INIT_linux rep_MUTEX_LOCK_linux
      rep_MUTEX_UNLOCK_linux rep_COND_INIT_linux rep_COND_WAIT_linux rep_COND_SIGNAL_linux
      rep_resume_linux rep_THREAD_CREATE_win32 rep_mutex_win32 rep_COND_INIT_win32
      rep_COND_WAIT_win32 rep_COND_SIGNAL_win32 rep_COND_WAIT_win32_wait
      rep_COND_WAIT_win32_enter returns_linux returns_win32 COND_WAIT_win32_invalid)
     (simp_all add: returned_check_ret)

text \<open>
  A lock the platform refuses with \<^verbatim>\<open>EINVAL\<close> (22) returns 22 and logs one message; a
  Windows wait on a condition variable that was never initialised, by the owner of the
  mutex, returns - 1 and logs one message.
\<close>

theorem failures_logged_and_returned_witness:
  "returned (MUTEX_LOCK_linux 1 7 (linux_boot\<lparr>l_errnos := [22]\<rparr>)) = Some 22
   \<and> l_log (state_after (MUTEX_LOCK_linux 1 7 (linux_boot\<lparr>l_errnos := [22]\<rparr>))) =
       [''mutex_lock failed: Invalid argument'']
   \<and> OwningThread (w_sections (state_after (MUTEX_LOCK_win32 1 7 win32_boot)) 7) = Some 1
   \<and> returned (COND_WAIT_win32 1 9 7 (state_after (MUTEX_LOCK_win32 1 7 win32_boot))) =
       Some (- 1)
   \<and> w_log (state_after (COND_WAIT_win32 1 9 7 (state_after (MUTEX_LOCK_win32 1 7 win32_boot)))) =
       [''cond_wait failed: The handle is invalid.'']"
  using failures_logged_and_returned
    [of 0 0 "linux_boot\<lparr>l_errnos := [22]\<rparr>" 7 1 9 "In_pthread_mutex_lock 1 7"
        "state_after (MUTEX_LOCK_win32 1 7 win32_boot)" 0 0]
  by (simp add: outcome_defs win32_mutex_defs win32_boot_def linux_boot_def Let_def
      MUTEX_LOCK_linux_def check_ret_def pthread_mutex_lock_def platform_errno_def
      linux_META_ERROR_def META_ERROR_def strerror_def
      COND_WAIT_win32_def COND_WAIT_win32_wait_def COND_WAIT_win32_enter_def
      WaitForSingleObject_def WAIT_FAILED_def WAIT_OBJECT_0_def win32_META_ERROR_def
      str_GetLastError_def)

subsection \<open>What a failed thread creation leaves behind\<close>

lemma l_running_detach: "l_running (snd (pthread_detach th w)) = l_running w"
  by (auto simp: pthread_detach_def l_running_def split: option.splits)

lemma l_running_META_ERROR: "l_running (linux_META_ERROR fmt a w) = l_running w"
  by (simp add: l_running_def linux_META_ERROR_def)

lemma l_running_create:
  "l_running (snd (pthread_create tid func w)) =
     (if fst (pthread_create tid func w) \<noteq> 0 then l_running w
      else l_running w @ [(Suc (length (l_threads w)), func)])"
  by (auto simp: pthread_create_def l_running_def platform_errno_def platform_early_detach_def
      Let_def split: list.splits)

lemma THREAD_CREATE_linux_running:
  "l_running (state_after (THREAD_CREATE_linux tid func w)) =
     (if fst (pthread_create tid func w) \<noteq> 0 then l_running w
      else l_running w @ [(Suc (length (l_threads w)), func)])"
proof -
  obtain r1 w1 where c: "pthread_create tid func w = (r1, w1)"
    by (cases "pthread_create tid func w")
  obtain r2 w2 where d: "pthread_detach (l_thread_ids w1 tid) w1 = (r2, w2)"
    by (cases "pthread_detach (l_thread_ids w1 tid) w1")
  have "l_running w2 = l_running w1"
    using l_running_detach [of "l_thread_ids w1 tid" w1] d by simp
  with c d l_running_create [of tid func w] show ?thesis
    by (simp add: THREAD_CREATE_linux_def state_after_def l_running_META_ERROR)
qed

lemma THREAD_CREATE_linux_result:
  "returned (THREAD_CREATE_linux tid func w) =
     Some (if fst (pthread_create tid func w) \<noteq> 0 then fst (pthread_create tid func w)
           else fst (pthread_detach (l_thread_ids (snd (pthread_create tid func w)) tid)
                  (snd (pthread_create tid func w))))"
  by (simp add: THREAD_CREATE_linux_def returned_def Let_def split: prod.splits)

lemma THREAD_CREATE_win32_threads:
  "w_threads (state_after (THREAD_CREATE_win32 tid func w)) =
     (if returned (THREAD_CREATE_win32 tid func w) = Some 0
      then w_threads w @ [(Suc (length (w_threads w)), func)] else w_threads w)"
  by (auto simp: THREAD_CREATE_win32_def CreateThread_def kernel_grant_def Let_def
      win32_META_ERROR_def outcome_defs split: list.splits)

text \<open>
  C4, the claim as stated fails on linux: the new thread runs at once and detaches
  itself, so that \<^verbatim>\<open>pthread_create\<close> succeeds and \<^verbatim>\<open>pthread_detach\<close> then returns \<^verbatim>\<open>EINVAL\<close>
  (22). \<^verbatim>\<open>THREAD_CREATE\<close> returns 22, and the process, which had no thread before, has
  one that runs the entry point.
\<close>

theorem thread_started_despite_failure_counterexample:
  "returned (THREAD_CREATE_linux 100 4096 (linux_boot\<lparr>l_early_detach := [True]\<rparr>)) = Some 22
   \<and> l_running (state_after
        (THREAD_CREATE_linux 100 4096 (linux_boot\<lparr>l_early_detach := [True]\<rparr>))) = [(1, 4096)]
   \<and> l_running (linux_boot\<lparr>l_early_detach := [True]\<rparr>) = []"
  by (simp add: outcome_defs THREAD_CREATE_linux_def pthread_create_def pthread_detach_def
      platform_errno_def platform_early_detach_def linux_boot_def Let_def linux_META_ERROR_def
      l_running_def)

text \<open>
  C4, amended. Under the Windows backing there is a new thread exactly when
  \<^verbatim>\<open>THREAD_CREATE\<close> returns 0. Under the linux backing there is a new thread, running the
  entry point, exactly when \<^verbatim>\<open>pthread_create\<close> succeeded; the result is the error of
  \<^verbatim>\<open>pthread_create\<close> if it has one, else that of \<^verbatim>\<open>pthread_detach\<close>, so a non-zero result
  means either that no thread was started or that the thread was started and
  \<^verbatim>\<open>pthread_detach\<close> failed.
\<close>

theorem thread_started_iff_creation_succeeded:
  "w_threads (state_after (THREAD_CREATE_win32 tid func ww)) =
     (if returned (THREAD_CREATE_win32 tid func ww) = Some 0
      then w_threads ww @ [(Suc (length (w_threads ww)), func)] else w_threads ww)
   \<and> l_running (state_after (THREAD_CREATE_linux tid func lw)) =
     (if fst (pthread_create tid func lw) \<noteq> 0 then l_running lw
      else l_running lw @ [(Suc (length (l_threads lw)), func)])
   \<and> returned (THREAD_CREATE_linux tid func lw) =
     Some (if fst (pthread_create tid func lw) \<noteq> 0 then fst (pthread_create tid func lw)
           else fst (pthread_detach (l_thread_ids (snd (pthread_create tid func lw)) tid)
                  (snd (pthread_create tid func lw))))"
  by (intro conjI THREAD_CREATE_win32_threads THREAD_CREATE_linux_running
      THREAD_CREATE_linux_result)

text \<open>
  With \<^verbatim>\<open>EAGAIN\<close> (11) from \<^verbatim>\<open>pthread_create\<close> no thread is started and the result is 11;
  with success from both native calls the new thread runs and the result is 0.
\<close>

theorem thread_started_iff_creation_succeeded_witness:
  "returned (THREAD_CREATE_linux 100 4096 (linux_boot\<lparr>l_errnos := [11]\<rparr>)) = Some 11
   \<and> l_running (state_after (THREAD_CREATE_linux 100 4096 (linux_boot\<lparr>l_errnos := [11]\<rparr>))) = []
   \<and> fst (pthread_create 100 4096 linux_boot) = 0
   \<and> returned (THREAD_CREATE_linux 100 4096 linux_boot) = Some 0
   \<and> l_running (state_after (THREAD_CREATE_linux 100 4096 linux_boot)) = [(1, 4096)]"
  using thread_started_iff_creation_succeeded [of 100 4096 win32_boot "linux_boot\<lparr>l_errnos := [11]\<rparr>"]
    thread_started_iff_creation_succeeded [of 100 4096 win32_boot linux_boot]
  by (simp add: outcome_defs THREAD_CREATE_linux_def pthread_create_def pthread_detach_def
      platform_errno_def platform_early_detach_def linux_boot_def Let_def linux_META_ERROR_def
      l_running_def)

subsection \<open>The mutex is held when a wait returns\<close>

lemma wait_of_win32_enter: "wait_of_win32 t m (COND_WAIT_win32_enter t m ret w)"
  by (auto simp: wait_of_win32_def COND_WAIT_win32_enter_def EnterCriticalSection_def
      win32_META_ERROR_def Let_def split: option.splits if_splits)

lemma wait_of_win32_wait: "wait_of_win32 t m (COND_WAIT_win32_wait t h m w)"
  by (cases "WaitForSingleObject h w")
     (auto simp: COND_WAIT_win32_wait_def wait_of_win32_enter, simp add: wait_of_win32_def)

lemma wait_of_win32_call: "wait_of_win32 t m (COND_WAIT_win32 t c m w)"
  by (simp add: COND_WAIT_win32_def Let_def wait_of_win32_wait)

lemma wait_of_win32_Blocked:
  "wait_of_win32 t m (Blocked s p) =
     (case p of
        In_MUTEX_LOCK t' m' \<Rightarrow> False
      | In_COND_WAIT_wait t' h m' \<Rightarrow> t' = t \<and> m' = m
      | In_COND_WAIT_enter t' m' ret \<Rightarrow> t' = t \<and> m' = m)"
  by (simp add: wait_of_win32_def)

lemma wait_of_win32_resume:
  "wait_of_win32 t m (Blocked s p) \<Longrightarrow> wait_of_win32 t m (resume_win32 p w)"
  by (cases p) (auto simp: wait_of_win32_Blocked wait_of_win32_wait wait_of_win32_enter)

lemma wait_of_win32_run: "wait_of_win32 t m r \<Longrightarrow> wait_of_win32 t m (run_win32 r ws)"
proof (induction r ws rule: run_win32.induct)
  case (3 s p w ws)
  then show ?case by (simp add: wait_of_win32_resume)
qed simp_all

lemma wait_of_linux_acquire:
  "wait_of_linux t m (check_ret fmt (mutex_acquire (In_pthread_cond_wait_mutex t m) t m w))"
  by (simp add: wait_of_linux_def check_ret_def mutex_acquire_def THREAD_OK_def)

lemma wait_of_linux_wake:
  "wait_of_linux t m (check_ret fmt (cond_wake t c m w))"
  using wait_of_linux_acquire [of t m fmt w]
  by (simp add: cond_wake_def) (simp add: wait_of_linux_def check_ret_def)

lemma wait_of_linux_call:
  "l_mutexes w m = Some t \<Longrightarrow> wait_of_linux t m (COND_WAIT_linux t c m w)"
  by (auto simp: wait_of_linux_def COND_WAIT_linux_def check_ret_def pthread_cond_wait_def
      platform_errno_def linux_META_ERROR_def Let_def split: list.splits)

lemma wait_of_linux_Blocked:
  "wait_of_linux t m (Blocked s p) =
     (case p of
        In_pthread_mutex_lock t' m' \<Rightarrow> False
      | In_pthread_cond_wait t' c m' \<Rightarrow> t' = t \<and> m' = m
      | In_pthread_cond_wait_mutex t' m' \<Rightarrow> t' = t \<and> m' = m)"
  by (simp add: wait_of_linux_def)

lemma wait_of_linux_resume:
  "wait_of_linux t m (Blocked s p) \<Longrightarrow> wait_of_linux t m (resume_linux p w)"
  by (cases p) (auto simp: wait_of_linux_Blocked wait_of_linux_wake wait_of_linux_acquire)

lemma wait_of_linux_run: "wait_of_linux t m r \<Longrightarrow> wait_of_linux t m (run_linux r ws)"
proof (induction r ws rule: run_linux.induct)
  case (3 s p w ws)
  then show ?case by (simp add: wait_of_linux_resume)
qed simp_all

text \<open>
  C3. When \<^verbatim>\<open>COND_WAIT\<close> returns, with whatever result, the calling thread owns the
  mutex: under the Windows backing in every case (the critical section is entered again
  before the result of the wait is looked at), under the linux backing for a caller that
  owned the mutex when it called. The thread may have been blocked and resumed any number
  of times on the way, in any states the other threads left.
\<close>

theorem cond_wait_returns_with_mutex_held:
  "(run_win32 (COND_WAIT_win32 t c m ww) wws = Returns r ww' \<longrightarrow>
      OwningThread (w_sections ww' m) = Some t \<and> \<not> damaged (w_sections ww' m))
   \<and> (l_mutexes lw m = Some t \<and> run_linux (COND_WAIT_linux t c m lw) lws = Returns e lw' \<longrightarrow>
      l_mutexes lw' m = Some t)"
proof (intro conjI impI)
  assume a: "run_win32 (COND_WAIT_win32 t c m ww) wws = Returns r ww'"
  have "wait_of_win32 t m (run_win32 (COND_WAIT_win32 t c m ww) wws)"
    by (intro wait_of_win32_run wait_of_win32_call)
  with a have "OwningThread (w_sections ww' m) = Some t \<and> \<not> damaged (w_sections ww' m)"
    by (simp add: wait_of_win32_def)
  then show "OwningThread (w_sections ww' m) = Some t" and "\<not> damaged (w_sections ww' m)"
    by simp_all
next
  assume a: "l_mutexes lw m = Some t \<and> run_linux (COND_WAIT_linux t c m lw) lws = Returns e lw'"
  then have "wait_of_linux t m (run_linux (COND_WAIT_linux t c m lw) lws)"
    by (intro wait_of_linux_run wait_of_linux_call) simp
  with a show "l_mutexes lw' m = Some t"
    by (simp add: wait_of_linux_def)
qed

text \<open>
  Thread 1 waits and is resumed after thread 2 has signalled: the wait returns 0 and
  thread 1 owns the mutex, on both platforms. A linux wait the platform refuses with
  \<^verbatim>\<open>EINVAL\<close> (22) returns 22 at once, and thread 1 still owns the mutex.
\<close>

theorem cond_wait_returns_with_mutex_held_witness:
  "run_win32 (COND_WAIT_win32 1 9 7 win32_locked) [win32_signalled] =
     Returns 0 (state_after (run_win32 (COND_WAIT_win32 1 9 7 win32_locked) [win32_signalled]))
   \<and> OwningThread (w_sections
        (state_after (run_win32 (COND_WAIT_win32 1 9 7 win32_locked) [win32_signalled])) 7) = Some 1
   \<and> l_mutexes (linux_locked\<lparr>l_errnos := [22]\<rparr>) 7 = Some 1
   \<and> run_linux (COND_WAIT_linux 1 9 7 (linux_locked\<lparr>l_errnos := [22]\<rparr>)) [] =
     Returns 22 (state_after (COND_WAIT_linux 1 9 7 (linux_locked\<lparr>l_errnos := [22]\<rparr>)))
   \<and> l_mutexes (state_after (COND_WAIT_linux 1 9 7 (linux_locked\<lparr>l_errnos := [22]\<rparr>))) 7 = Some 1
   \<and> l_mutexes linux_locked 7 = Some 1
   \<and> run_linux (COND_WAIT_linux 1 9 7 linux_locked) [linux_signalled] =
     Returns 0 (state_after (run_linux (COND_WAIT_linux 1 9 7 linux_locked) [linux_signalled]))
   \<and> l_mutexes
        (state_after (run_linux (COND_WAIT_linux 1 9 7 linux_locked) [linux_signalled])) 7 = Some 1"
proof -
  have a: "run_win32 (COND_WAIT_win32 1 9 7 win32_locked) [win32_signalled] =
     Returns 0 (state_after (run_win32 (COND_WAIT_win32 1 9 7 win32_locked) [win32_signalled]))"
    by (rule returned_Some) (simp add: outcome_defs win32_mutex_defs win32_cond_defs scenario_defs Let_def)
  have b: "l_mutexes (linux_locked\<lparr>l_errnos := [22]\<rparr>) 7 = Some 1"
    by (simp add: outcome_defs linux_sync_defs scenario_defs Let_def)
  have c: "run_linux (COND_WAIT_linux 1 9 7 (linux_locked\<lparr>l_errnos := [22]\<rparr>)) [] =
     Returns 22 (state_after (COND_WAIT_linux 1 9 7 (linux_locked\<lparr>l_errnos := [22]\<rparr>)))"
    unfolding run_linux.simps
    by (rule returned_Some) (simp add: outcome_defs linux_sync_defs scenario_defs Let_def)
  have d: "l_mutexes linux_locked 7 = Some 1"
    by (simp add: outcome_defs linux_sync_defs scenario_defs Let_def)
  have e: "run_linux (COND_WAIT_linux 1 9 7 linux_locked) [linux_signalled] =
     Returns 0 (state_after (run_linux (COND_WAIT_linux 1 9 7 linux_locked) [linux_signalled]))"
    by (rule returned_Some) (simp add: outcome_defs linux_sync_defs scenario_defs Let_def)
  from a b c d e
    cond_wait_returns_with_mutex_held
      [of 1 9 7 win32_locked "[win32_signalled]" 0
          "state_after (run_win32 (COND_WAIT_win32 1 9 7 win32_locked) [win32_signalled])"
          "linux_locked\<lparr>l_errnos := [22]\<rparr>" "[]" 22
          "state_after (COND_WAIT_linux 1 9 7 (linux_locked\<lparr>l_errnos := [22]\<rparr>))"]
    cond_wait_returns_with_mutex_held
      [of 1 9 7 win32_locked "[win32_signalled]" 0
          "state_after (run_win32 (COND_WAIT_win32 1 9 7 win32_locked) [win32_signalled])"
          linux_locked "[linux_signalled]" 0
          "state_after (run_linux (COND_WAIT_linux 1 9 7 linux_locked) [linux_signalled])"]
  show ?thesis
    by simp
qed

subsection \<open>A new Windows condition variable holds no wakeup\<close>

lemma win32_events_frame:
  "w_events (LeaveCriticalSection t m w) = w_events w"
  "w_events (InitializeCriticalSection m w) = w_events w"
  "w_events (win32_META_ERROR fmt a w) = w_events w"
  "w_events (snd (kernel_grant w)) = w_events w"
  "w_events (snd (CreateThread func tid w)) = w_events w"
  "w_events (snd (LoadLibrary filename w)) = w_events w"
  "w_events (snd (GetProcAddress h name w)) = w_events w"
  "w_events (snd (FreeLibrary h w)) = w_events w"
  by (auto simp: LeaveCriticalSection_def InitializeCriticalSection_def win32_META_ERROR_def
      kernel_grant_def CreateThread_def LoadLibrary_def GetProcAddress_def FreeLibrary_def
      Let_def split: list.splits option.splits prod.splits)

lemma Enter_events: "EnterCriticalSection t m w = Some w' \<Longrightarrow> w_events w' = w_events w"
  by (auto simp: EnterCriticalSection_def Let_def split: if_splits)

lemma Wait_unsignaled:
  "WaitForSingleObject h' w = Some (ret, w') \<Longrightarrow> auto_unsignaled h w \<Longrightarrow> auto_unsignaled h w'"
  by (auto simp: WaitForSingleObject_def auto_unsignaled_def split: option.splits if_splits)

lemma CreateEvent_unsignaled: "auto_unsignaled h w \<Longrightarrow> auto_unsignaled h (snd (CreateEvent False False w))"
  by (auto simp: CreateEvent_def auto_unsignaled_def kernel_grant_def Let_def split: list.splits)

lemma enter_unsignaled: "auto_unsignaled h w \<Longrightarrow> auto_unsignaled h (state_after (COND_WAIT_win32_enter t m ret w))"
  by (cases "EnterCriticalSection t m w")
     (auto simp: COND_WAIT_win32_enter_def state_after_def auto_unsignaled_def win32_events_frame
        dest: Enter_events)

lemma wait_unsignaled: "auto_unsignaled h w \<Longrightarrow> auto_unsignaled h (state_after (COND_WAIT_win32_wait t h' m w))"
proof (cases "WaitForSingleObject h' w")
  case None
  assume "auto_unsignaled h w"
  with None show ?thesis by (simp add: COND_WAIT_win32_wait_def state_after_def)
next
  case (Some a)
  assume q: "auto_unsignaled h w"
  obtain ret w' where a: "a = (ret, w')" by (cases a)
  with Some q have "auto_unsignaled h w'" using Wait_unsignaled by simp
  with Some a show ?thesis by (simp add: COND_WAIT_win32_wait_def enter_unsignaled)
qed

lemma after_unsignaled:
  assumes "auto_unsignaled h w" and "\<not> is_signal x"
  shows "auto_unsignaled h (after_win32 x w)"
proof (cases x)
  case (THREAD_CREATE_call tid func)
  with assms show ?thesis
    using win32_events_frame(5) [of func tid w]
    by (auto simp add: THREAD_CREATE_win32_def state_after_def auto_unsignaled_def Let_def
        win32_events_frame(3) split: prod.splits)
next
  case (MUTEX_INIT_call m)
  with assms show ?thesis
    by (simp add: MUTEX_INIT_win32_def state_after_def auto_unsignaled_def win32_events_frame)
next
  case (MUTEX_LOCK_call t m)
  with assms show ?thesis
    by (cases "EnterCriticalSection t m w")
       (auto simp: MUTEX_LOCK_win32_def state_after_def auto_unsignaled_def dest: Enter_events)
next
  case (MUTEX_UNLOCK_call t m)
  with assms show ?thesis
    by (simp add: MUTEX_UNLOCK_win32_def state_after_def auto_unsignaled_def win32_events_frame)
next
  case (COND_INIT_call c)
  with assms CreateEvent_unsignaled [of h w] show ?thesis
    by (auto simp: COND_INIT_win32_def state_after_def auto_unsignaled_def Let_def win32_events_frame(3)
        split: prod.splits)
next
  case (COND_WAIT_call t c m)
  have "auto_unsignaled h (LeaveCriticalSection t m w)"
    using assms(1) by (simp add: auto_unsignaled_def win32_events_frame)
  with COND_WAIT_call show ?thesis
    by (simp add: COND_WAIT_win32_def Let_def wait_unsignaled)
next
  case (COND_SIGNAL_call c)
  with assms show ?thesis by simp
next
  case (DLOPEN_call f)
  with assms show ?thesis
    by (simp add: DLOPEN_win32_def auto_unsignaled_def win32_events_frame)
next
  case (DLSYM_call h' n)
  with assms show ?thesis
    by (simp add: DLSYM_win32_def auto_unsignaled_def win32_events_frame)
next
  case (DLCLOSE_call h')
  with assms show ?thesis
    using win32_events_frame(8) [of h' w]
    by (auto simp add: DLCLOSE_win32_def state_after_def auto_unsignaled_def split: prod.splits)
next
  case (Resumed p)
  show ?thesis
  proof (cases p)
    case (In_MUTEX_LOCK t m)
    with Resumed assms show ?thesis
      by (cases "EnterCriticalSection t m w")
         (auto simp: MUTEX_LOCK_win32_def state_after_def auto_unsignaled_def dest: Enter_events)
  next
    case (In_COND_WAIT_wait t h' m)
    with Resumed assms show ?thesis by (simp add: wait_unsignaled)
  next
    case (In_COND_WAIT_enter t m ret)
    with Resumed assms show ?thesis by (simp add: enter_unsignaled)
  qed
qed

lemma after_all_unsignaled:
  "auto_unsignaled h w \<Longrightarrow> \<forall>x\<in>set xs. \<not> is_signal x \<Longrightarrow> auto_unsignaled h (after_all_win32 xs w)"
  by (induction xs arbitrary: w) (simp_all add: after_unsignaled)


lemma COND_INIT_win32_fresh:
  assumes "returned (COND_INIT_win32 c w) = Some 0"
  shows "w_cond_vars (state_after (COND_INIT_win32 c w)) c \<noteq> NULL"
    and "auto_unsignaled (w_cond_vars (state_after (COND_INIT_win32 c w)) c)
           (state_after (COND_INIT_win32 c w))"
  using assms
  by (auto simp: COND_INIT_win32_def CreateEvent_def kernel_grant_def Let_def outcome_defs
      auto_unsignaled_def win32_META_ERROR_def split: list.splits if_splits)

lemma unsignaled_resume_blocks:
  "auto_unsignaled h w \<Longrightarrow>
   resume_win32 (In_COND_WAIT_wait t h m) w = Blocked w (In_COND_WAIT_wait t h m)"
  by (simp add: COND_WAIT_win32_wait_def WaitForSingleObject_def auto_unsignaled_def)

lemma unsignaled_wait_blocks:
  assumes "auto_unsignaled (w_cond_vars w c) w"
  shows "COND_WAIT_win32 t c m w =
           Blocked (LeaveCriticalSection t m w) (In_COND_WAIT_wait t (w_cond_vars w c) m)"
proof -
  have "w_cond_vars (LeaveCriticalSection t m w) c = w_cond_vars w c"
    by (simp add: LeaveCriticalSection_def Let_def)
  moreover have "auto_unsignaled (w_cond_vars w c) (LeaveCriticalSection t m w)"
    using assms by (simp add: auto_unsignaled_def win32_events_frame)
  ultimately show ?thesis
    using unsignaled_resume_blocks [of "w_cond_vars w c" "LeaveCriticalSection t m w" t m]
    by (simp add: COND_WAIT_win32_def Let_def)
qed

lemma signal_then_wait_passes:
  assumes "auto_unsignaled (w_cond_vars w c) w"
  shows "map_option fst (WaitForSingleObject (w_cond_vars w c)
           (state_after (COND_SIGNAL_win32 c w))) = Some WAIT_OBJECT_0"
  using assms
  by (simp add: COND_SIGNAL_win32_def SetEvent_def WaitForSingleObject_def state_after_def
      auto_unsignaled_def)

text \<open>
  C10. When \<^verbatim>\<open>COND_INIT\<close> succeeds under the Windows backing, the condition variable
  holds the handle of a new event that is auto-reset and not signaled. Whatever calls
  the threads make after that through this header, except \<^verbatim>\<open>COND_SIGNAL\<close>, the event is
  still so: a \<^verbatim>\<open>COND_WAIT\<close> on the condition variable then blocks, in
  \<^verbatim>\<open>WaitForSingleObject\<close> with the mutex left, and a thread blocked there stays blocked
  when it is resumed. After a \<^verbatim>\<open>COND_SIGNAL\<close> on the condition variable the wait is
  satisfied.
\<close>

theorem fresh_condition_variable_blocks_first_wait:
  assumes "returned (COND_INIT_win32 c w) = Some 0" and "\<forall>x\<in>set calls. \<not> is_signal x"
  shows "(let I = state_after (COND_INIT_win32 c w); h = w_cond_vars I c;
              W = after_all_win32 calls I
          in h \<noteq> NULL
             \<and> w_events I h = Some \<lparr>manual_reset = False, signaled = False\<rparr>
             \<and> w_events W h = Some \<lparr>manual_reset = False, signaled = False\<rparr>
             \<and> resume_win32 (In_COND_WAIT_wait t h m) W = Blocked W (In_COND_WAIT_wait t h m)
             \<and> (w_cond_vars W c = h \<longrightarrow>
                  COND_WAIT_win32 t c m W =
                    Blocked (LeaveCriticalSection t m W) (In_COND_WAIT_wait t h m))
             \<and> (w_cond_vars W c = h \<longrightarrow>
                  map_option fst (WaitForSingleObject h (state_after (COND_SIGNAL_win32 c W)))
                    = Some WAIT_OBJECT_0))"
proof -
  define I where "I = state_after (COND_INIT_win32 c w)"
  define h where "h = w_cond_vars I c"
  define W where "W = after_all_win32 calls I"
  have 1: "h \<noteq> NULL" and 2: "auto_unsignaled h I"
    using COND_INIT_win32_fresh [OF assms(1)] by (simp_all add: I_def h_def)
  have 3: "auto_unsignaled h W"
    unfolding W_def using 2 assms(2) by (rule after_all_unsignaled)
  have 4: "resume_win32 (In_COND_WAIT_wait t h m) W = Blocked W (In_COND_WAIT_wait t h m)"
    using 3 by (rule unsignaled_resume_blocks)
  have 5: "COND_WAIT_win32 t c m W = Blocked (LeaveCriticalSection t m W) (In_COND_WAIT_wait t h m)"
    if "w_cond_vars W c = h"
    using unsignaled_wait_blocks [of W c t m] 3 that by simp
  have 6: "map_option fst (WaitForSingleObject h (state_after (COND_SIGNAL_win32 c W)))
             = Some WAIT_OBJECT_0"
    if "w_cond_vars W c = h"
    using signal_then_wait_passes [of W c] 3 that by simp
  from 1 2 3 4 5 6 show ?thesis
    unfolding Let_def I_def [symmetric] h_def [symmetric] W_def [symmetric]
    by (simp add: auto_unsignaled_def)
qed

text \<open>
  After the mutex at 7 is initialised, the condition variable at 9 is; then thread 1
  locks the mutex, a thread is created, and thread 2 tries the mutex. The wait of
  thread 1 blocks.
\<close>

theorem fresh_condition_variable_blocks_first_wait_witness:
  "returned (COND_INIT_win32 9 (state_after (MUTEX_INIT_win32 7 win32_boot))) = Some 0
   \<and> w_cond_vars win32_ready 9 = 4
   \<and> COND_WAIT_win32 1 9 7
        (after_all_win32 [MUTEX_LOCK_call 1 7, THREAD_CREATE_call 100 4096, MUTEX_LOCK_call 2 7]
           win32_ready) =
       Blocked
        (LeaveCriticalSection 1 7
          (after_all_win32 [MUTEX_LOCK_call 1 7, THREAD_CREATE_call 100 4096, MUTEX_LOCK_call 2 7]
             win32_ready))
        (In_COND_WAIT_wait 1 4 7)"
proof -
  have a: "returned (COND_INIT_win32 9 (state_after (MUTEX_INIT_win32 7 win32_boot))) = Some 0"
    by (simp add: outcome_defs win32_mutex_defs win32_cond_defs scenario_defs Let_def)
  have b: "\<forall>x\<in>set [MUTEX_LOCK_call 1 7, THREAD_CREATE_call 100 4096, MUTEX_LOCK_call 2 7].
             \<not> is_signal x"
    by simp
  have c: "w_cond_vars win32_ready 9 = 4"
    by (simp add: outcome_defs win32_mutex_defs win32_cond_defs scenario_defs Let_def)
  have d: "w_cond_vars
      (after_all_win32 [MUTEX_LOCK_call 1 7, THREAD_CREATE_call 100 4096, MUTEX_LOCK_call 2 7]
         win32_ready) 9 = 4"
    by (simp add: outcome_defs win32_mutex_defs win32_cond_defs scenario_defs Let_def
        THREAD_CREATE_win32_def CreateThread_def)
  from a c d fresh_condition_variable_blocks_first_wait [OF a b, of 1 7]
  show ?thesis
    by (simp add: Let_def win32_ready_def)
qed

subsection \<open>A signal that finds no waiter\<close>

lemma signal_sets:
  assumes "w_events w (w_cond_vars w c) = Some ev"
  shows "COND_SIGNAL_win32 c w =
           Returns 0 (w\<lparr>w_events := (w_events w)(w_cond_vars w c := Some (ev\<lparr>signaled := True\<rparr>))\<rparr>)"
  using assms by (simp add: COND_SIGNAL_win32_def SetEvent_def)

lemma wait_on_signaled:
  assumes "w_events w (w_cond_vars w c) = Some ev" and "\<not> manual_reset ev" and "signaled ev"
    and "OwningThread (w_sections w m) = Some t" and "\<not> damaged (w_sections w m)"
  shows "\<exists>w'. COND_WAIT_win32 t c m w = Returns 0 w'
           \<and> w_events w' = (w_events w)(w_cond_vars w c := Some (ev\<lparr>signaled := False\<rparr>))
           \<and> w_cond_vars w' = w_cond_vars w
           \<and> OwningThread (w_sections w' m) = Some t \<and> \<not> damaged (w_sections w' m)"
  using assms
  by (auto simp: COND_WAIT_win32_def COND_WAIT_win32_wait_def COND_WAIT_win32_enter_def
      WaitForSingleObject_def EnterCriticalSection_def LeaveCriticalSection_def Let_def
      WAIT_OBJECT_0_def)


text \<open>
  C2, the claim as stated fails: thread 1 holds the mutex, nobody waits on the condition
  variable, and its event is not signaled. \<^verbatim>\<open>COND_SIGNAL\<close> returns 0 and leaves the event
  signaled, and the \<^verbatim>\<open>COND_WAIT\<close> that thread 1 begins after that returns 0 at once
  instead of blocking.
\<close>

theorem signal_without_waiter_is_kept_counterexample:
  "returned (COND_SIGNAL_win32 9 win32_locked) = Some 0
   \<and> w_events win32_locked 4 = Some \<lparr>manual_reset = False, signaled = False\<rparr>
   \<and> w_events (state_after (COND_SIGNAL_win32 9 win32_locked)) 4 =
       Some \<lparr>manual_reset = False, signaled = True\<rparr>
   \<and> returned (COND_WAIT_win32 1 9 7 (state_after (COND_SIGNAL_win32 9 win32_locked))) = Some 0"
  by (simp add: outcome_defs win32_mutex_defs win32_cond_defs scenario_defs Let_def)

text \<open>
  C2, amended. Under the Windows backing a signal that finds no waiter is kept: for a
  condition variable that holds an auto-reset event, \<^verbatim>\<open>COND_SIGNAL\<close> returns 0 and leaves the
  event signaled; a second signal changes nothing; the next \<^verbatim>\<open>COND_WAIT\<close>, by a thread
  that owns the mutex, returns 0 at once, with the mutex owned and the event reset; and
  the wait after that one blocks.
\<close>

theorem signal_without_waiter_wakes_next_wait:
  assumes "w_events w (w_cond_vars w c) = Some \<lparr>manual_reset = False, signaled = s\<rparr>"
    and "OwningThread (w_sections w m) = Some t" and "\<not> damaged (w_sections w m)"
  shows "(let h = w_cond_vars w c; S = state_after (COND_SIGNAL_win32 c w);
              W = state_after (COND_WAIT_win32 t c m S)
          in returned (COND_SIGNAL_win32 c w) = Some 0
             \<and> w_events S h = Some \<lparr>manual_reset = False, signaled = True\<rparr>
             \<and> w_events (state_after (COND_SIGNAL_win32 c S)) = w_events S
             \<and> returned (COND_WAIT_win32 t c m S) = Some 0
             \<and> w_events W h = Some \<lparr>manual_reset = False, signaled = False\<rparr>
             \<and> OwningThread (w_sections W m) = Some t
             \<and> COND_WAIT_win32 t c m W =
                 Blocked (LeaveCriticalSection t m W) (In_COND_WAIT_wait t h m))"
proof -
  define h where "h = w_cond_vars w c"
  define S where "S = w\<lparr>w_events := (w_events w)(h := Some \<lparr>manual_reset = False, signaled = True\<rparr>)\<rparr>"
  have sig: "COND_SIGNAL_win32 c w = Returns 0 S"
    using signal_sets [OF assms(1)] by (simp add: S_def h_def)
  have Sh: "w_events S (w_cond_vars S c) = Some \<lparr>manual_reset = False, signaled = True\<rparr>"
    by (simp add: S_def h_def)
  have again: "w_events (state_after (COND_SIGNAL_win32 c S)) = w_events S"
    using signal_sets [OF Sh] Sh by (simp add: state_after_def fun_upd_idem)
  have "OwningThread (w_sections S m) = Some t" and "\<not> damaged (w_sections S m)"
    using assms(2,3) by (simp_all add: S_def)
  with wait_on_signaled [OF Sh, of m t]
  obtain W where wt: "COND_WAIT_win32 t c m S = Returns 0 W"
    and We: "w_events W = (w_events S)(w_cond_vars S c := Some \<lparr>manual_reset = False, signaled = False\<rparr>)"
    and Wc: "w_cond_vars W = w_cond_vars S"
    and Wo: "OwningThread (w_sections W m) = Some t"
    by auto
  have Sc: "w_cond_vars S c = h" by (simp add: S_def h_def)
  have "auto_unsignaled (w_cond_vars W c) W"
    by (simp add: auto_unsignaled_def We Wc)
  then have blk: "COND_WAIT_win32 t c m W =
      Blocked (LeaveCriticalSection t m W) (In_COND_WAIT_wait t h m)"
    using unsignaled_wait_blocks [of W c t m] by (simp add: Wc Sc)
  from sig Sh again wt We Wc Wo blk Sc show ?thesis
    unfolding Let_def h_def [symmetric]
    by (simp add: returned_def state_after_def)
qed

theorem signal_without_waiter_wakes_next_wait_witness:
  "w_events win32_locked (w_cond_vars win32_locked 9) =
     Some \<lparr>manual_reset = False, signaled = False\<rparr>
   \<and> OwningThread (w_sections win32_locked 7) = Some 1
   \<and> returned (COND_WAIT_win32 1 9 7 (state_after (COND_SIGNAL_win32 9 win32_locked))) = Some 0
   \<and> returned (COND_WAIT_win32 1 9 7
        (state_after (COND_WAIT_win32 1 9 7 (state_after (COND_SIGNAL_win32 9 win32_locked)))))
       = None"
proof -
  have a: "w_events win32_locked (w_cond_vars win32_locked 9) =
      Some \<lparr>manual_reset = False, signaled = False\<rparr>"
    by (simp add: outcome_defs win32_mutex_defs win32_cond_defs scenario_defs Let_def)
  have b: "OwningThread (w_sections win32_locked 7) = Some 1"
    and c: "\<not> damaged (w_sections win32_locked 7)"
    by (simp_all add: outcome_defs win32_mutex_defs win32_cond_defs scenario_defs Let_def)
  from a b signal_without_waiter_wakes_next_wait [OF a b c]
  show ?thesis
    by (simp add: Let_def returned_def)
qed

subsection \<open>A symbol that the module does not export\<close>













subsection \<open>A fault in the callee is contained\<close>

lemma os_safe_call_faulting:
  assumes "alive p" and "fst (pfn (memory p)) \<noteq> None"
  shows "fst (os_safe_call pfn p) = mFALSE"
    and "alive (snd (os_safe_call pfn p))"
    and "\<not> boundary (snd (os_safe_call pfn p))"
    and "memory (snd (os_safe_call pfn p)) = snd (pfn (memory p))"
  using assms
  by (auto simp: os_safe_call_def invoke_def raise_fault_def Let_def split: prod.splits option.splits)

lemma os_safe_call_returning:
  assumes "alive p" and "fst (pfn (memory p)) = None"
  shows "os_safe_call pfn p = (mTRUE, p\<lparr>boundary := False, memory := snd (pfn (memory p))\<rparr>)"
  using assms
  by (auto simp: os_safe_call_def invoke_def Let_def split: prod.splits option.splits)

text \<open>
  C1. When the function called through \<^verbatim>\<open>os_safe_call\<close> faults, whichever function it
  is, the call returns \<^verbatim>\<open>mFALSE\<close> (Faulted) and the process is alive, with no boundary left
  set; a further \<^verbatim>\<open>os_safe_call\<close>, on a function that returns, then returns \<^verbatim>\<open>mTRUE\<close>
  (Completed), the process is still alive, and what that function stored is in the
  memory.
\<close>

theorem fault_is_contained_and_host_goes_on:
  assumes "alive p" and "fst (pfn (memory p)) \<noteq> None" and "fst (g (memory (snd (os_safe_call pfn p)))) = None"
  shows "fst (os_safe_call pfn p) = mFALSE
     \<and> alive (snd (os_safe_call pfn p))
     \<and> \<not> boundary (snd (os_safe_call pfn p))
     \<and> fst (os_safe_call g (snd (os_safe_call pfn p))) = mTRUE
     \<and> alive (snd (os_safe_call g (snd (os_safe_call pfn p))))
     \<and> memory (snd (os_safe_call g (snd (os_safe_call pfn p)))) =
         snd (g (memory (snd (os_safe_call pfn p))))"
  using os_safe_call_faulting [of p pfn]
    os_safe_call_returning [of "snd (os_safe_call pfn p)" g] assms
  by simp

text \<open>
  The function that faults is called first and the one that returns after it; outside
  a boundary the same fault ends the process.
\<close>

theorem fault_is_contained_and_host_goes_on_witness:
  "alive host_process
   \<and> fst (null_dereference (memory host_process)) = Some Invalid_memory_access
   \<and> fst (os_safe_call null_dereference host_process) = mFALSE
   \<and> os_safe_call well_behaved (snd (os_safe_call null_dereference host_process)) =
       (mTRUE, \<lparr>alive = True, boundary = False, memory = (\<lambda>a. 0)(0 := 1)\<rparr>)
   \<and> \<not> alive (snd (invoke null_dereference host_process))"
proof -
  have a: "alive host_process"
    and b: "fst (null_dereference (memory host_process)) \<noteq> None"
    and c: "fst (well_behaved (memory (snd (os_safe_call null_dereference host_process)))) = None"
    by (simp_all add: host_process_def null_dereference_def well_behaved_def)
  from a b c
    fault_is_contained_and_host_goes_on [of host_process null_dereference well_behaved]
  show ?thesis
    by (simp add: host_process_def null_dereference_def well_behaved_def os_safe_call_def
        invoke_def raise_fault_def)
qed

subsection \<open>A signal wakes at most one waiter\<close>

lemma woken_unsignaled:
  "auto_unsignaled h w \<Longrightarrow> \<forall>p\<in>set ps. waits_on_win32 h p \<Longrightarrow> woken resume_win32 ps w = 0"
proof (induction ps)
  case Nil
  show ?case by simp
next
  case (Cons p ps)
  then obtain t m where p: "p = In_COND_WAIT_wait t h m"
    by (cases p) auto
  have "resume_win32 p w = Blocked w p"
    using Cons.prems(1) unsignaled_resume_blocks [of h w t m] by (simp only: p)
  with Cons show ?case
    by (simp add: still_blocked_def state_after_def)
qed

lemma resume_wait_unsignals:
  assumes "w_events w h = Some ev" and "\<not> manual_reset ev" and "signaled ev"
  shows "auto_unsignaled h (state_after (resume_win32 (In_COND_WAIT_wait t h m) w))"
proof -
  define w1 where "w1 = w\<lparr>w_events := (w_events w)(h := Some (ev\<lparr>signaled := False\<rparr>))\<rparr>"
  have "WaitForSingleObject h w = Some (WAIT_OBJECT_0, w1)"
    using assms by (simp add: WaitForSingleObject_def w1_def)
  moreover have "auto_unsignaled h w1"
    using assms(2) by (simp add: auto_unsignaled_def w1_def)
  ultimately show ?thesis
    by (simp add: COND_WAIT_win32_wait_def enter_unsignaled)
qed

lemma woken_auto_reset:
  assumes "w_events w h = Some ev" and "\<not> manual_reset ev"
    and "\<forall>p\<in>set ps. waits_on_win32 h p"
  shows "woken resume_win32 ps w \<le> 1"
proof (cases "signaled ev")
  case False
  with assms(1,2) have "auto_unsignaled h w"
    by (simp add: auto_unsignaled_def)
  with assms(3) show ?thesis by (simp add: woken_unsignaled)
next
  case True
  show ?thesis
  proof (cases ps)
    case Nil
    then show ?thesis by simp
  next
    case (Cons p qs)
    with assms(3) obtain t m where p: "p = In_COND_WAIT_wait t h m"
      by (cases p) auto
    have "auto_unsignaled h (state_after (resume_win32 p w))"
      unfolding p using assms(1,2) True by (rule resume_wait_unsignals)
    moreover have "\<forall>q\<in>set qs. waits_on_win32 h q"
      using assms(3) Cons by simp
    ultimately have "woken resume_win32 qs (state_after (resume_win32 p w)) = 0"
      by (rule woken_unsignaled)
    with Cons show ?thesis by (simp add: Let_def)
  qed
qed

lemma signal_keeps_auto_reset:
  assumes "w_events w (w_cond_vars w c) = Some ev" and "\<not> manual_reset ev"
  shows "w_events (state_after (COND_SIGNAL_win32 c w)) (w_cond_vars w c) =
           Some (ev\<lparr>signaled := True\<rparr>)"
  using assms by (simp add: COND_SIGNAL_win32_def SetEvent_def state_after_def)

lemma resume_linux_conds: "l_conds (state_after (resume_linux p w)) = l_conds w"
  by (cases p)
     (simp_all add: check_ret_def mutex_acquire_def cond_wake_def state_after_def
        linux_META_ERROR_def THREAD_OK_def)

lemma resume_linux_asleep:
  "still_blocked (In_pthread_cond_wait t c m) (resume_linux (In_pthread_cond_wait t c m) w) =
     (t \<in> set (l_conds w c))"
  by (simp add: check_ret_def mutex_acquire_def cond_wake_def still_blocked_def THREAD_OK_def)

lemma woken_linux_count:
  "\<forall>p\<in>set ps. waits_on_linux c p \<Longrightarrow>
   woken resume_linux ps w = length (filter (\<lambda>p. thread_of p \<notin> set (l_conds w c)) ps)"
proof (induction ps arbitrary: w)
  case Nil
  show ?case by simp
next
  case (Cons p ps)
  then obtain t m where p: "p = In_pthread_cond_wait t c m"
    by (cases p) auto
  have "woken resume_linux ps (state_after (resume_linux p w)) =
      length (filter (\<lambda>p. thread_of p \<notin> set (l_conds w c)) ps)"
    using Cons.IH [of "state_after (resume_linux p w)"] Cons.prems
    by (simp add: resume_linux_conds)
  then show ?case
    using resume_linux_asleep [of t c m w] by (simp add: Let_def p)
qed

lemma at_most_one_with_image:
  "distinct (map f ps) \<Longrightarrow> length (filter (\<lambda>p. f p = x) ps) \<le> 1"
proof (induction ps)
  case Nil
  show ?case by simp
next
  case (Cons a ps)
  show ?case
  proof (cases "f a = x")
    case True
    with Cons.prems have "x \<notin> f ` set ps" by simp
    then have "\<forall>p\<in>set ps. f p \<noteq> x" by blast
    then have "filter (\<lambda>p. f p = x) ps = []" by (simp add: filter_empty_conv)
    with True show ?thesis by simp
  next
    case False
    with Cons show ?thesis by simp
  qed
qed

lemma set_restart: "set sl - set (restart k sl) \<subseteq> {sl ! (k mod length sl)}"
proof (cases "sl = []")
  case True
  then show ?thesis by (simp add: restart_def)
next
  case False
  define i where "i = k mod length sl"
  have i: "i < length sl" using False by (simp add: i_def)
  have "sl = take i sl @ sl ! i # drop (Suc i) sl"
    using i by (simp add: id_take_nth_drop)
  then have "set sl = set (take i sl) \<union> {sl ! i} \<union> set (drop (Suc i) sl)"
    by (metis Un_insert_right list.simps(15) set_append sup_bot.right_neutral Un_assoc Un_insert_left sup_bot_left)
  then show ?thesis
    by (auto simp: restart_def i_def)
qed

lemma signal_linux_conds:
  "\<exists>x. set (l_conds w c) - set (l_conds (state_after (COND_SIGNAL_linux c w)) c) \<subseteq> {x}"
proof (cases "fst (platform_errno w) = 0")
  case False
  then have "l_conds (state_after (COND_SIGNAL_linux c w)) c = l_conds w c"
    by (auto simp: COND_SIGNAL_linux_def pthread_cond_signal_def check_ret_def state_after_def
        platform_errno_def linux_META_ERROR_def Let_def split: list.splits prod.splits)
  then show ?thesis by simp
next
  case True
  then have "\<exists>k. l_conds (state_after (COND_SIGNAL_linux c w)) c = restart k (l_conds w c)"
    by (auto simp: COND_SIGNAL_linux_def pthread_cond_signal_def check_ret_def state_after_def
        platform_errno_def platform_pick_def THREAD_OK_def Let_def split: list.splits prod.splits)
  then show ?thesis
    using set_restart by metis
qed

lemma filter_length_mono:
  "\<forall>p\<in>set ps. P p \<longrightarrow> Q p \<Longrightarrow> length (filter P ps) \<le> length (filter Q ps)"
  by (induction ps) auto

lemma woken_linux_at_most_one:
  assumes "\<forall>p\<in>set ps. waits_on_linux c p \<and> thread_of p \<in> set (l_conds w c)"
    and "distinct (map thread_of ps)"
  shows "woken resume_linux ps (state_after (COND_SIGNAL_linux c w)) \<le> 1"
proof -
  define S where "S = state_after (COND_SIGNAL_linux c w)"
  obtain x where x: "set (l_conds w c) - set (l_conds S c) \<subseteq> {x}"
    using signal_linux_conds [of w c] by (auto simp: S_def)
  have "woken resume_linux ps S = length (filter (\<lambda>p. thread_of p \<notin> set (l_conds S c)) ps)"
    using assms(1) by (intro woken_linux_count) simp
  also have "\<dots> \<le> length (filter (\<lambda>p. thread_of p = x) ps)"
    using assms(1) x by (intro filter_length_mono) auto
  also have "\<dots> \<le> 1"
    using assms(2) by (rule at_most_one_with_image)
  finally show ?thesis by (simp add: S_def)
qed

text \<open>
  C5. One \<^verbatim>\<open>COND_SIGNAL\<close> wakes at most one of the threads blocked in \<^verbatim>\<open>COND_WAIT\<close> on the
  condition variable, whichever they are, however many, and in whatever order they are
  resumed after the signal: under the Windows backing for a condition variable that
  holds an auto-reset event, as \<^verbatim>\<open>COND_INIT\<close> creates it, the threads being those blocked in
  \<^verbatim>\<open>WaitForSingleObject\<close> on that event; under the linux backing for the threads asleep on
  the condition variable, whichever of them the platform picks.
\<close>

theorem signal_wakes_at_most_one_waiter:
  "(w_events ww (w_cond_vars ww c) = Some ev \<and> \<not> manual_reset ev
      \<and> (\<forall>p\<in>set wps. waits_on_win32 (w_cond_vars ww c) p) \<longrightarrow>
      woken resume_win32 wps (state_after (COND_SIGNAL_win32 c ww)) \<le> 1)
   \<and> ((\<forall>p\<in>set lps. waits_on_linux c p \<and> thread_of p \<in> set (l_conds lw c))
      \<and> distinct (map thread_of lps) \<longrightarrow>
      woken resume_linux lps (state_after (COND_SIGNAL_linux c lw)) \<le> 1)"
proof (intro conjI impI)
  assume a: "w_events ww (w_cond_vars ww c) = Some ev \<and> \<not> manual_reset ev
      \<and> (\<forall>p\<in>set wps. waits_on_win32 (w_cond_vars ww c) p)"
  then have e: "w_events (state_after (COND_SIGNAL_win32 c ww)) (w_cond_vars ww c) =
      Some (ev\<lparr>signaled := True\<rparr>)"
    using signal_keeps_auto_reset [of ww c ev] by simp
  have m: "\<not> manual_reset (ev\<lparr>signaled := True\<rparr>)"
    using a by simp
  have b: "\<forall>p\<in>set wps. waits_on_win32 (w_cond_vars ww c) p"
    using a by simp
  show "woken resume_win32 wps (state_after (COND_SIGNAL_win32 c ww)) \<le> 1"
    using e m b by (rule woken_auto_reset)
next
  assume "(\<forall>p\<in>set lps. waits_on_linux c p \<and> thread_of p \<in> set (l_conds lw c))
      \<and> distinct (map thread_of lps)"
  then show "woken resume_linux lps (state_after (COND_SIGNAL_linux c lw)) \<le> 1"
    using woken_linux_at_most_one [of lps c lw] by simp
qed

text \<open>
  Two threads wait, one signal: exactly one of them is woken, on both platforms.
\<close>

theorem signal_wakes_at_most_one_waiter_witness:
  "w_events win32_two_waiters (w_cond_vars win32_two_waiters 9) =
     Some \<lparr>manual_reset = False, signaled = False\<rparr>
   \<and> l_conds linux_two_waiters 9 = [1, 2]
   \<and> woken resume_win32 [In_COND_WAIT_wait 1 4 7, In_COND_WAIT_wait 2 4 7]
        (state_after (COND_SIGNAL_win32 9 win32_two_waiters)) = 1
   \<and> woken resume_linux [In_pthread_cond_wait 2 9 7, In_pthread_cond_wait 1 9 7]
        (state_after (COND_SIGNAL_linux 9 linux_two_waiters)) = 1"
proof -
  have a: "w_events win32_two_waiters (w_cond_vars win32_two_waiters 9) =
      Some \<lparr>manual_reset = False, signaled = False\<rparr>"
    and b: "w_cond_vars win32_two_waiters 9 = 4"
    by (simp_all add: outcome_defs win32_mutex_defs win32_cond_defs scenario_defs Let_def)
  have c: "l_conds linux_two_waiters 9 = [1, 2]"
    by (simp add: outcome_defs linux_sync_defs scenario_defs Let_def)
  have d: "woken resume_win32 [In_COND_WAIT_wait 1 4 7, In_COND_WAIT_wait 2 4 7]
        (state_after (COND_SIGNAL_win32 9 win32_two_waiters)) \<noteq> 0"
    by (simp add: outcome_defs win32_mutex_defs win32_cond_defs scenario_defs Let_def
        still_blocked_def)
  have e: "woken resume_linux [In_pthread_cond_wait 2 9 7, In_pthread_cond_wait 1 9 7]
        (state_after (COND_SIGNAL_linux 9 linux_two_waiters)) \<noteq> 0"
    by (simp add: outcome_defs linux_sync_defs scenario_defs Let_def still_blocked_def)
  from a b c d e
    signal_wakes_at_most_one_waiter
      [of win32_two_waiters 9 "\<lparr>manual_reset = False, signaled = False\<rparr>"
          "[In_COND_WAIT_wait 1 4 7, In_COND_WAIT_wait 2 4 7]"
          "[In_pthread_cond_wait 2 9 7, In_pthread_cond_wait 1 9 7]" linux_two_waiters]
  show ?thesis
    by simp
qed

end
